theory Spec2Isabelle
  imports Complex_Main "HOL-Library.Char_ord" "HOL-Library.List_Lexorder"
begin

section \<open>Expense tracker: the ledger file and its summary\<close>

text \<open>
  The program (\<^verbatim>\<open>Expense_tracker.py\<close>) keeps a ledger in one sheet of a spreadsheet file
  and reads, changes and rewrites that sheet through a data-frame library. The development
  follows the script: the cells and frames it handles, the file, \<^verbatim>\<open>load_data\<close> and
  \<^verbatim>\<open>save_data\<close>, the two buttons of the first tab, and the month view, the summary
  and the deletion of selected rows of the second tab.

  What the library does is fixed here as follows. A sheet keeps the cells written to it,
  and reading it takes some texts for missing values and numbers, as the reader of the
  library does by default. Amounts are exact rationals: the rounding of binary floating
  point is not modelled. Writing the file succeeds (a full disk, and text that a sheet
  cannot hold, are not modelled). The text shown by the user interface is left out; each
  handler returns the new file and what it reports.
\<close>

subsection \<open>Cells, frames and the file\<close>

record stamp =
  year :: nat
  month :: nat
  day :: nat
  hour :: nat
  minute :: nat

text \<open>
  A cell is text, a number, a date-time, or missing (\<^verbatim>\<open>NaN\<close>, \<^verbatim>\<open>NaT\<close>,
  a blank cell of the sheet).
\<close>

datatype cell = Str string | Num rat | Stamp stamp | NaN

text \<open>
  A frame has named columns and rows, each row carrying its index label. A row is a list of
  cells in the order of the columns; a cell that a short row lacks is missing.
\<close>

record frame =
  columns :: "string list"
  body :: "(nat \<times> cell list) list"

text \<open>
  A sheet is a header and rows of cells, as \<^verbatim>\<open>to_excel\<close> leaves them from a frame of the
  program: the names of the header are distinct and not empty, and the last row is not one
  of blank cells only. (The reader renames a header that is not so, and drops blank rows
  at the end; neither is modelled.)
\<close>

record sheet =
  header :: "string list"
  cells :: "cell list list"

datatype excel_file = Missing | Corrupt | Workbook "(string \<times> sheet) list"

datatype error = FileNotFoundError | BadZipFile | ValueError | KeyError | TypeError


definition SHEET_NAME :: string where
  "SHEET_NAME = ''Expenses''"

definition COLUMNS :: "string list" where
  "COLUMNS = [''Date'', ''Category'', ''Amount (INR)'', ''Type'', ''Note'']"

definition index :: "frame \<Rightarrow> nat list" where
  "index df = map fst (body df)"

definition rows :: "frame \<Rightarrow> cell list list" where
  "rows df = map snd (body df)"

text \<open>\<^verbatim>\<open>RangeIndex\<close>: the rows labelled 0, 1, 2, ...\<close>

definition range_index :: "cell list list \<Rightarrow> (nat \<times> cell list) list" where
  "range_index rs = zip [0 ..< length rs] rs"

text \<open>\<^verbatim>\<open>pd.DataFrame(columns=...)\<close>: no rows.\<close>

definition DataFrame :: "string list \<Rightarrow> frame" where
  "DataFrame cols = \<lparr>columns = cols, body = []\<rparr>"

text \<open>\<^verbatim>\<open>df.empty\<close>: one of the two axes has length 0.\<close>

definition df_empty :: "frame \<Rightarrow> bool" where
  "df_empty df \<longleftrightarrow> body df = [] \<or> columns df = []"

fun col_pos :: "string list \<Rightarrow> string \<Rightarrow> nat option" where
  "col_pos [] c = None"
| "col_pos (x # xs) c = (if x = c then Some 0 else map_option Suc (col_pos xs c))"

definition cell_at :: "cell list \<Rightarrow> nat \<Rightarrow> cell" where
  "cell_at r k = (if k < length r then r ! k else NaN)"

text \<open>The cell of a row under a column name; a name the frame lacks gives a missing cell.\<close>

definition at_col :: "string list \<Rightarrow> string \<Rightarrow> cell list \<Rightarrow> cell" where
  "at_col cols c r = (case col_pos cols c of None \<Rightarrow> NaN | Some k \<Rightarrow> cell_at r k)"

text \<open>\<^verbatim>\<open>df[c]\<close>: the cells of a column, \<^verbatim>\<open>KeyError\<close> when there is no such column.\<close>

definition get_col :: "frame \<Rightarrow> string \<Rightarrow> error + cell list" where
  "get_col df c =
     (if c \<in> set (columns df) then Inr (map (at_col (columns df) c) (rows df))
      else Inl KeyError)"

text \<open>
  \<^verbatim>\<open>df[c] = values\<close>: replaces the column, or adds it as the last one; the values are
  given one per row, in row order.
\<close>

definition pad :: "nat \<Rightarrow> cell list \<Rightarrow> cell list" where
  "pad n r = take n (r @ replicate (n - length r) NaN)"

definition set_cell :: "string list \<Rightarrow> string \<Rightarrow> cell \<Rightarrow> cell list \<Rightarrow> cell list" where
  "set_cell cols c v r =
     (case col_pos cols c of
        None \<Rightarrow> pad (length cols) r @ [v]
      | Some k \<Rightarrow> (pad (length cols) r)[k := v])"

definition assign :: "frame \<Rightarrow> string \<Rightarrow> cell list \<Rightarrow> frame" where
  "assign df c vs =
     \<lparr>columns = (if c \<in> set (columns df) then columns df else columns df @ [c]),
      body = map (\<lambda>((i, r), v). (i, set_cell (columns df) c v r)) (zip (body df) vs)\<rparr>"

text \<open>\<^verbatim>\<open>df[mask]\<close> with the mask computed row by row.\<close>

definition select :: "(cell list \<Rightarrow> bool) \<Rightarrow> frame \<Rightarrow> frame" where
  "select p df = df\<lparr>body := filter (\<lambda>(i, r). p r) (body df)\<rparr>"

text \<open>\<^verbatim>\<open>df.reset_index(drop=True)\<close>\<close>

definition reset_index :: "frame \<Rightarrow> frame" where
  "reset_index df = df\<lparr>body := range_index (rows df)\<rparr>"

text \<open>
  \<^verbatim>\<open>df.drop(index=labels)\<close>: the rows whose label is not listed; a label that no row
  carries raises \<^verbatim>\<open>KeyError\<close>.
\<close>

definition drop_rows :: "frame \<Rightarrow> nat list \<Rightarrow> error + frame" where
  "drop_rows df labels =
     (if set labels \<subseteq> set (index df)
      then Inr (df\<lparr>body := filter (\<lambda>(i, r). i \<notin> set labels) (body df)\<rparr>)
      else Inl KeyError)"

text \<open>
  \<^verbatim>\<open>pd.concat([a, b], ignore_index=True)\<close>: the columns of \<open>a\<close>, then those only
  \<open>b\<close> has; every row is laid out under the new columns, a cell it has no column for is
  missing; the rows are labelled anew.
\<close>

definition reindex_row :: "string list \<Rightarrow> string list \<Rightarrow> cell list \<Rightarrow> cell list" where
  "reindex_row old new r = map (\<lambda>c. at_col old c r) new"

definition concat_frames :: "frame \<Rightarrow> frame \<Rightarrow> frame" where
  "concat_frames a b =
     (let cols = columns a @ filter (\<lambda>c. c \<notin> set (columns a)) (columns b)
      in \<lparr>columns = cols,
          body = range_index (map (reindex_row (columns a) cols) (rows a)
                              @ map (reindex_row (columns b) cols) (rows b))\<rparr>)"

text \<open>
  \<^verbatim>\<open>df.to_excel(writer, index=False, sheet_name=...)\<close> writes the header and the rows
  without their labels.
\<close>

definition to_excel :: "frame \<Rightarrow> sheet" where
  "to_excel df = \<lparr>header = columns df, cells = rows df\<rparr>"

text \<open>
  \<^verbatim>\<open>pd.read_excel\<close> is called on line 40 with the sheet's name only, so it reads the
  cells with its defaults and does not give back every cell as it was written. A text
  cell that spells one of the reader's marks of a missing value (the empty text among
  them) is read as missing. So is text that the writer has not stored as text: text of
  more than one character that begins with \<^verbatim>\<open>=\<close> is stored as a formula, of which the
  file holds no value, and text that is an error code of a spreadsheet is stored as an
  error.
\<close>

definition NA_VALUES :: "string list" where
  "NA_VALUES = ['''', ''#N/A'', ''#N/A N/A'', ''#NA'', ''-1.#IND'', ''-1.#QNAN'', ''-NaN'',
     ''-nan'', ''1.#IND'', ''1.#QNAN'', ''<NA>'', ''N/A'', ''NA'', ''NULL'', ''NaN'', ''None'',
     ''n/a'', ''nan'', ''null'']"

definition ERROR_CODES :: "string list" where
  "ERROR_CODES = [''#NULL!'', ''#DIV/0!'', ''#VALUE!'', ''#REF!'', ''#NAME?'', ''#NUM!'', ''#N/A'']"

definition formula :: "string \<Rightarrow> bool" where
  "formula s \<longleftrightarrow> 1 < length s \<and> hd s = CHR ''=''"

definition missing_text :: "string \<Rightarrow> bool" where
  "missing_text s \<longleftrightarrow> s \<in> set NA_VALUES \<or> s \<in> set ERROR_CODES \<or> formula s"

definition na_mask :: "cell \<Rightarrow> cell" where
  "na_mask c = (case c of Str s \<Rightarrow> (if missing_text s then NaN else Str s) | _ \<Rightarrow> c)"

text \<open>
  The reader then tries to take a whole column for numbers. Text spells a number when it
  is, between blanks, an optional sign, decimal digits with an optional point among them,
  and an optional exponent. (Text that spells a truth value or an infinity, which the
  reader takes for a value too, is left as text here, and the range of a double is not
  modelled.)
\<close>

definition digit_val :: "char \<Rightarrow> nat option" where
  "digit_val c =
     map_of [(CHR ''0'', 0), (CHR ''1'', 1), (CHR ''2'', 2), (CHR ''3'', 3), (CHR ''4'', 4),
             (CHR ''5'', 5), (CHR ''6'', 6), (CHR ''7'', 7), (CHR ''8'', 8), (CHR ''9'', 9)] c"

fun number :: "nat \<Rightarrow> string \<Rightarrow> nat option" where
  "number acc [] = Some acc"
| "number acc (c # cs) =
     (case digit_val c of None \<Rightarrow> None | Some d \<Rightarrow> number (10 * acc + d) cs)"

definition is_digit :: "char \<Rightarrow> bool" where
  "is_digit c \<longleftrightarrow> digit_val c \<noteq> None"

definition is_space :: "char \<Rightarrow> bool" where
  "is_space c \<longleftrightarrow> c \<in> set [CHR '' '', CHR 0x09, CHR 0x0A, CHR 0x0B, CHR 0x0C, CHR 0x0D]"

definition is_sign :: "string \<Rightarrow> bool" where
  "is_sign s \<longleftrightarrow> s \<noteq> [] \<and> hd s \<in> set ''+-''"

definition after_sign :: "string \<Rightarrow> string" where
  "after_sign s = (if is_sign s then tl s else s)"

definition negative :: "string \<Rightarrow> bool" where
  "negative s \<longleftrightarrow> s \<noteq> [] \<and> hd s = CHR ''-''"

definition starts_with :: "string \<Rightarrow> string \<Rightarrow> bool" where
  "starts_with cs s \<longleftrightarrow> s \<noteq> [] \<and> hd s \<in> set cs"

definition scale :: "bool \<Rightarrow> nat \<Rightarrow> bool \<Rightarrow> nat \<Rightarrow> nat \<Rightarrow> rat" where
  "scale neg m eneg e k =
     (let x = (if eneg then of_nat m / 10 ^ (e + k)
               else if k \<le> e then of_nat m * 10 ^ (e - k)
               else of_nat m / 10 ^ (k - e))
      in if neg then - x else x)"

definition number_of :: "string \<Rightarrow> rat option" where
  "number_of s =
     (let s1 = dropWhile is_space s;
          s2 = after_sign s1;
          ip = takeWhile is_digit s2;
          s3 = dropWhile is_digit s2;
          fp = (if starts_with ''.'' s3 then takeWhile is_digit (tl s3) else []);
          s4 = (if starts_with ''.'' s3 then dropWhile is_digit (tl s3) else s3);
          s5 = after_sign (tl s4);
          ed = (if starts_with ''eE'' s4 then takeWhile is_digit s5 else []);
          s6 = (if ed = [] then s4 else dropWhile is_digit s5)
      in if ip @ fp \<noteq> [] \<and> list_all is_space s6
         then (case (number 0 (ip @ fp), number 0 ed) of
                 (Some m, Some e) \<Rightarrow> Some (scale (negative s1) m (negative (tl s4)) e (length fp))
               | _ \<Rightarrow> None)
         else None)"

text \<open>
  \<open>numeric_column\<close>: every cell of the column is a number, missing, or text that spells a
  number. Then the texts of the column are read as numbers; otherwise the column stays as
  it is, apart from its missing values.
\<close>

definition numeric_column :: "cell list \<Rightarrow> bool" where
  "numeric_column cs =
     list_all (\<lambda>c. case na_mask c of
                      Str s \<Rightarrow> number_of s \<noteq> None
                    | Num q \<Rightarrow> True
                    | NaN \<Rightarrow> True
                    | Stamp t \<Rightarrow> False) cs"

definition read_cell :: "bool \<Rightarrow> cell \<Rightarrow> cell" where
  "read_cell numeric c =
     (case na_mask c of
        Str s \<Rightarrow> (if numeric then (case number_of s of Some q \<Rightarrow> Num q | None \<Rightarrow> Str s)
                  else Str s)
      | c' \<Rightarrow> c')"

text \<open>
  Text that the reader leaves as it is in any column: no mark of a missing value, no
  number, and no truth value or infinity either.
\<close>

definition to_lower :: "char \<Rightarrow> char" where
  "to_lower c =
     (case map_of [(CHR ''I'', CHR ''i''), (CHR ''N'', CHR ''n''), (CHR ''F'', CHR ''f''),
                   (CHR ''T'', CHR ''t''), (CHR ''Y'', CHR ''y'')] c of
        Some l \<Rightarrow> l
      | None \<Rightarrow> c)"

definition value_word :: "string \<Rightarrow> bool" where
  "value_word s \<longleftrightarrow>
     s \<in> set [''True'', ''TRUE'', ''true'', ''False'', ''FALSE'', ''false'']
     \<or> map to_lower (after_sign s) \<in> set [''inf'', ''infinity'']"

definition plain :: "string \<Rightarrow> bool" where
  "plain s \<longleftrightarrow> \<not> missing_text s \<and> number_of s = None \<and> \<not> value_word s"


text \<open>The rows as read: each cell under the header, read with the rest of its column.\<close>

definition read_row :: "string list \<Rightarrow> cell list list \<Rightarrow> cell list \<Rightarrow> cell list" where
  "read_row hdr rs r =
     map (\<lambda>k. read_cell (numeric_column (map (\<lambda>r'. cell_at r' k) rs)) (cell_at r k))
         [0 ..< length hdr]"

definition read_rows :: "string list \<Rightarrow> cell list list \<Rightarrow> cell list list" where
  "read_rows hdr rs = map (read_row hdr rs) rs"

text \<open>
  The frame read has a fresh \<^verbatim>\<open>RangeIndex\<close>. The read fails when there is no file,
  when the file is not a workbook, and when the workbook has no sheet of that name.
\<close>

definition read_excel :: "excel_file \<Rightarrow> string \<Rightarrow> error + frame" where
  "read_excel f name =
     (case f of
        Missing \<Rightarrow> Inl FileNotFoundError
      | Corrupt \<Rightarrow> Inl BadZipFile
      | Workbook sheets \<Rightarrow>
          (case map_of sheets name of
             None \<Rightarrow> Inl ValueError
           | Some sh \<Rightarrow>
               Inr \<lparr>columns = header sh,
                    body = range_index (read_rows (header sh) (cells sh))\<rparr>))"

subsection \<open>Initialisation, \<^verbatim>\<open>load_data\<close> and \<^verbatim>\<open>save_data\<close>\<close>

text \<open>Lines 32 to 35: a file that does not exist is created with the header only.\<close>

definition initialize :: "excel_file \<Rightarrow> excel_file" where
  "initialize f =
     (if f = Missing then Workbook [(SHEET_NAME, to_excel (DataFrame COLUMNS))] else f)"

text \<open>\<^verbatim>\<open>load_data\<close>: any exception of the read gives the empty frame.\<close>

definition load_data :: "excel_file \<Rightarrow> frame" where
  "load_data f =
     (case read_excel f SHEET_NAME of
        Inr df \<Rightarrow> df
      | Inl e \<Rightarrow> DataFrame COLUMNS)"

text \<open>\<^verbatim>\<open>save_data\<close>: the file is written anew (\<^verbatim>\<open>mode="w"\<close>) with the one sheet.\<close>

definition save_data :: "frame \<Rightarrow> excel_file" where
  "save_data df = Workbook [(SHEET_NAME, to_excel df)]"

subsection \<open>The clock and the text of a date\<close>

definition digit :: "nat \<Rightarrow> char" where
  "digit n = ''0123456789'' ! (n mod 10)"

definition pad2 :: "nat \<Rightarrow> string" where
  "pad2 n = [digit (n div 10), digit n]"

definition pad4 :: "nat \<Rightarrow> string" where
  "pad4 n = [digit (n div 1000), digit (n div 100), digit (n div 10), digit n]"

text \<open>
  \<^verbatim>\<open>strftime("%Y-%m-%d %H:%M")\<close> of a clock reading (whose year has four digits).
\<close>

definition strftime :: "stamp \<Rightarrow> string" where
  "strftime t = pad4 (year t) @ ''-'' @ pad2 (month t) @ ''-'' @ pad2 (day t)
                @ '' '' @ pad2 (hour t) @ '':'' @ pad2 (minute t)"

subsection \<open>First tab: add an entry, remove the last entry\<close>

datatype 'a outcome = Rejected | Done 'a | Nothing

text \<open>
  ``Add Entry'': an amount that is not positive is refused with a message and nothing is
  written; otherwise the file is loaded, the new row is put after its rows, and the whole
  is saved. \<open>now\<close> is the reading of the clock.
\<close>

definition new_entry :: "stamp \<Rightarrow> string \<Rightarrow> rat \<Rightarrow> string \<Rightarrow> string \<Rightarrow> frame" where
  "new_entry now category amount txn_type note =
     \<lparr>columns = [''Date'', ''Category'', ''Amount (INR)'', ''Type'', ''Note''],
      body = [(0, [Str (strftime now), Str category, Num amount, Str txn_type, Str note])]\<rparr>"

definition add_entry ::
  "stamp \<Rightarrow> string \<Rightarrow> rat \<Rightarrow> string \<Rightarrow> string \<Rightarrow> excel_file \<Rightarrow> excel_file \<times> unit outcome" where
  "add_entry now category amount txn_type note f =
     (if amount \<le> 0 then (f, Rejected)
      else
        let df = load_data f;
            df = concat_frames df (new_entry now category amount txn_type note)
        in (save_data df, Done ()))"

text \<open>
  ``Remove Last Entry'': with rows in the file the last one is taken off and the rest is
  saved; with none, only the message ``No entries to remove.'' is shown.
\<close>

definition remove_last :: "excel_file \<Rightarrow> excel_file \<times> cell list outcome" where
  "remove_last f =
     (let df = load_data f
      in if \<not> df_empty df
         then (save_data (df\<lparr>body := butlast (body df)\<rparr>), Done (snd (last (body df))))
         else (f, Nothing))"

subsection \<open>Second tab: dates and months\<close>

definition days_in_month :: "nat \<Rightarrow> nat \<Rightarrow> nat" where
  "days_in_month y m =
     (if m = 2
      then (if y mod 400 = 0 then 29 else if y mod 100 = 0 then 28
            else if y mod 4 = 0 then 29 else 28)
      else if m \<in> {4, 6, 9, 11} then 30 else 31)"

text \<open>Reading a date written as \<^verbatim>\<open>YYYY-MM-DD HH:MM\<close>, the form the program writes.\<close>

definition strptime :: "string \<Rightarrow> stamp option" where
  "strptime s =
     (if length s = 16 \<and> s ! 4 = CHR ''-'' \<and> s ! 7 = CHR ''-'' \<and> s ! 10 = CHR '' ''
         \<and> s ! 13 = CHR '':''
      then
        (case (number 0 (take 4 s), number 0 (take 2 (drop 5 s)), number 0 (take 2 (drop 8 s)),
               number 0 (take 2 (drop 11 s)), number 0 (drop 14 s)) of
           (Some y, Some m, Some d, Some h, Some mi) \<Rightarrow>
             (if 1 \<le> y \<and> 1 \<le> m \<and> m \<le> 12 \<and> 1 \<le> d \<and> d \<le> days_in_month y m
                 \<and> h < 24 \<and> mi < 60
              then Some \<lparr>year = y, month = m, day = d, hour = h, minute = mi\<rparr>
              else None)
         | _ \<Rightarrow> None)
      else None)"

text \<open>
  \<^verbatim>\<open>pd.to_datetime(..., errors="coerce")\<close> on one cell, for the cells a ledger holds:
  a date-time cell stays, text in the program's own form is read, and what cannot be read
  becomes the missing date-time \<^verbatim>\<open>NaT\<close> instead of an error. (The library reads further
  spellings of a date and takes a number for an offset from 1970; the ledger has neither.)
\<close>

definition to_datetime :: "cell \<Rightarrow> cell" where
  "to_datetime c =
     (case c of
        Stamp t \<Rightarrow> Stamp t
      | Str s \<Rightarrow> (case strptime s of Some t \<Rightarrow> Stamp t | None \<Rightarrow> NaN)
      | _ \<Rightarrow> NaN)"

text \<open>\<^verbatim>\<open>.dt.to_period("M")\<close>: year and month of a date-time, nothing of a missing one.\<close>

definition to_period_M :: "cell \<Rightarrow> (nat \<times> nat) option" where
  "to_period_M c = (case c of Stamp t \<Rightarrow> Some (year t, month t) | _ \<Rightarrow> None)"

text \<open>
  \<^verbatim>\<open>.astype(str)\<close> turns every element into text: a month into \<^verbatim>\<open>YYYY-MM\<close>, and the
  missing period into the three letters \<^verbatim>\<open>NaT\<close> (as the library does where \<^verbatim>\<open>str\<close> is
  the object type of Python strings, that is before its version 3). The result has no
  missing cell.
\<close>

definition astype_str :: "(nat \<times> nat) option \<Rightarrow> cell" where
  "astype_str p =
     (case p of Some (y, m) \<Rightarrow> Str (pad4 y @ ''-'' @ pad2 m) | None \<Rightarrow> Str ''NaT'')"

text \<open>Lines 126 and 127: the loaded frame itself gets the new cells and the new column.\<close>

definition date_processing :: "frame \<Rightarrow> error + frame" where
  "date_processing data =
     (case get_col data ''Date'' of
        Inl e \<Rightarrow> Inl e
      | Inr ds \<Rightarrow>
          let data = assign data ''Date'' (map to_datetime ds)
          in (case get_col data ''Date'' of
                Inl e \<Rightarrow> Inl e
              | Inr ds' \<Rightarrow>
                  Inr (assign data ''Month'' (map (\<lambda>d. astype_str (to_period_M d)) ds'))))"

definition dropna :: "cell list \<Rightarrow> cell list" where
  "dropna cs = filter (\<lambda>c. c \<noteq> NaN) cs"

text \<open>\<^verbatim>\<open>.unique()\<close>: each value once, in the order of first appearance.\<close>

definition unique :: "'a list \<Rightarrow> 'a list" where
  "unique xs = rev (remdups (rev xs))"

definition text_of :: "cell \<Rightarrow> string" where
  "text_of c = (case c of Str s \<Rightarrow> s | _ \<Rightarrow> [])"

text \<open>
  The month under which a date cell is listed: what lines 126 and 127 make of it. And the
  row that the two assignments make of a row of the loaded frame.
\<close>

definition month_of :: "cell \<Rightarrow> string" where
  "month_of c = text_of (astype_str (to_period_M (to_datetime c)))"

definition processed :: "string list \<Rightarrow> cell list \<Rightarrow> cell list" where
  "processed cols r =
     (let r1 = set_cell cols ''Date'' (to_datetime (at_col cols ''Date'' r)) r
      in set_cell cols ''Month'' (astype_str (to_period_M (at_col cols ''Date'' r1))) r1)"

text \<open>
  The months offered: \<^verbatim>\<open>sorted(data["Month"].dropna().unique(), reverse=True)\<close>.
  The column holds text only, being the result of \<^verbatim>\<open>astype(str)\<close>.
\<close>

definition month_options :: "frame \<Rightarrow> string list" where
  "month_options data =
     rev (sort (map text_of (unique (dropna (map (at_col (columns data) ''Month'') (rows data))))))"

definition monthly_data :: "frame \<Rightarrow> string \<Rightarrow> frame" where
  "monthly_data data selected_month =
     select (\<lambda>r. at_col (columns data) ''Month'' r = Str selected_month) data"

subsection \<open>Second tab: the type filter and the summary\<close>

datatype show_for = ExpensesOnly | SavingsOnly | AllTypes

definition filter_type :: "show_for \<Rightarrow> frame \<Rightarrow> error + frame" where
  "filter_type sh monthly =
     (case sh of
        ExpensesOnly \<Rightarrow>
          (if ''Type'' \<in> set (columns monthly)
           then Inr (select (\<lambda>r. at_col (columns monthly) ''Type'' r = Str ''Expense'') monthly)
           else Inl KeyError)
      | SavingsOnly \<Rightarrow>
          (if ''Type'' \<in> set (columns monthly)
           then Inr (select (\<lambda>r. at_col (columns monthly) ''Type'' r \<noteq> Str ''Expense'') monthly)
           else Inl KeyError)
      | AllTypes \<Rightarrow> Inr monthly)"

text \<open>
  \<^verbatim>\<open>.sum()\<close> skips a missing amount; an amount that is text or a date cannot be added
  to numbers.
\<close>

definition amount_of :: "cell \<Rightarrow> rat option" where
  "amount_of c = (case c of Num q \<Rightarrow> Some q | NaN \<Rightarrow> Some 0 | _ \<Rightarrow> None)"

definition group_total :: "frame \<Rightarrow> cell \<Rightarrow> rat option" where
  "group_total df k =
     map_option sum_list
       (those (map (\<lambda>r. amount_of (at_col (columns df) ''Amount (INR)'' r))
                   (filter (\<lambda>r. at_col (columns df) ''Category'' r = k) (rows df))))"

text \<open>
  \<^verbatim>\<open>filtered.groupby("Category")["Amount (INR)"].sum()\<close>: one group for each category of
  the frame, rows without a category left out, the groups in the order of their names.
\<close>

definition groupby_sum :: "frame \<Rightarrow> error + (cell \<times> rat) list" where
  "groupby_sum df =
     (if ''Category'' \<in> set (columns df) \<and> ''Amount (INR)'' \<in> set (columns df)
      then
        (let keys = sort_key text_of
                      (unique (dropna (map (at_col (columns df) ''Category'') (rows df))))
         in case those (map (group_total df) keys) of
              None \<Rightarrow> Inl TypeError
            | Some totals \<Rightarrow> Inr (zip keys totals))
      else Inl KeyError)"

text \<open>
  \<^verbatim>\<open>.sort_values(ascending=False)\<close>: the library sorts the reversed series upwards
  and reverses the result, so that equal totals keep their order.
\<close>

definition sort_values_desc :: "('k \<times> rat) list \<Rightarrow> ('k \<times> rat) list" where
  "sort_values_desc g = rev (sort_key snd (rev g))"

text \<open>Lines 153 to 167: the table of totals, or nothing for an empty selection.\<close>

definition grouped :: "frame \<Rightarrow> error + (cell \<times> rat) list option" where
  "grouped filtered =
     (if \<not> df_empty filtered
      then (case groupby_sum filtered of
              Inl e \<Rightarrow> Inl e
            | Inr g \<Rightarrow> Inr (Some (sort_values_desc g)))
      else Inr None)"

text \<open>
  What the summary is to show for one category: the sum of the amounts of its rows, a row
  without a number counting nothing.
\<close>

definition total_of :: "frame \<Rightarrow> cell \<Rightarrow> rat" where
  "total_of df k =
     sum_list (map (\<lambda>r. case at_col (columns df) ''Amount (INR)'' r of Num q \<Rightarrow> q | _ \<Rightarrow> 0)
                   (filter (\<lambda>r. at_col (columns df) ''Category'' r = k) (rows df)))"

subsection \<open>Second tab: delete the selected rows\<close>

text \<open>
  The second tab up to the row selection: the frame \<open>data\<close> after the date processing and
  the frame \<open>filtered\<close>; nothing when there are no entries yet.
\<close>

definition tab2_view :: "excel_file \<Rightarrow> string \<Rightarrow> show_for \<Rightarrow> error + (frame \<times> frame) option" where
  "tab2_view f selected_month sh =
     (let data = load_data f
      in if df_empty data then Inr None
         else (case date_processing data of
                 Inl e \<Rightarrow> Inl e
               | Inr data \<Rightarrow>
                   (case filter_type sh (monthly_data data selected_month) of
                      Inl e \<Rightarrow> Inl e
                    | Inr filtered \<Rightarrow> Inr (Some (data, filtered)))))"

text \<open>The rows offered for deletion: \<^verbatim>\<open>options=list(filtered.index)\<close>.\<close>

definition options :: "frame \<Rightarrow> nat list" where
  "options filtered = index filtered"

text \<open>
  ``Delete Selected Rows'' (the button is disabled while nothing is selected): the selected
  labels are dropped from \<open>data\<close>, the rest is labelled anew and saved. An exception leaves
  the file as it was.
\<close>

definition delete_selected_rows :: "frame \<Rightarrow> nat list \<Rightarrow> excel_file \<Rightarrow> error + excel_file" where
  "delete_selected_rows data selected_rows f =
     (if selected_rows = [] then Inr f
      else (case drop_rows data selected_rows of
              Inl e \<Rightarrow> Inl e
            | Inr df_all \<Rightarrow> Inr (save_data (reset_index df_all))))"

definition tab2_delete ::
  "excel_file \<Rightarrow> string \<Rightarrow> show_for \<Rightarrow> nat list \<Rightarrow> error + excel_file" where
  "tab2_delete f selected_month sh selected_rows =
     (case tab2_view f selected_month sh of
        Inl e \<Rightarrow> Inl e
      | Inr None \<Rightarrow> Inr f
      | Inr (Some (data, filtered)) \<Rightarrow> delete_selected_rows data selected_rows f)"

subsection \<open>Sequences of additions\<close>

type_synonym entry = "stamp \<times> string \<times> rat \<times> string \<times> string"

text \<open>The row of an entry, and ``Add Entry'' pressed once for each entry of a list.\<close>

definition entry_row :: "entry \<Rightarrow> cell list" where
  "entry_row e =
     (case e of (now, category, amount, txn_type, note) \<Rightarrow>
        [Str (strftime now), Str category, Num amount, Str txn_type, Str note])"






fun add_entries :: "entry list \<Rightarrow> excel_file \<Rightarrow> excel_file" where
  "add_entries [] f = f"
| "add_entries ((now, category, amount, txn_type, note) # es) f =
     add_entries es (fst (add_entry now category amount txn_type note f))"

subsection \<open>Ledgers used as examples\<close>

text \<open>Two entries of different months, as two presses of ``Add Entry'' leave them.\<close>

definition ledger_two :: excel_file where
  "ledger_two = Workbook [(''Expenses'',
     \<lparr>header = [''Date'', ''Category'', ''Amount (INR)'', ''Type'', ''Note''],
      cells = [[Str ''2024-01-05 10:30'', Str ''Food'', Num 250, Str ''Expense'', Str ''lunch''],
               [Str ''2024-02-07 09:05'', Str ''Housing'', Num 80, Str ''Income/Savings'',
                Str '''']]\<rparr>)]"

text \<open>Five entries of March 2024.\<close>

definition ledger_five :: excel_file where
  "ledger_five = Workbook [(''Expenses'',
     \<lparr>header = [''Date'', ''Category'', ''Amount (INR)'', ''Type'', ''Note''],
      cells = [[Str ''2024-03-01 08:00'', Str ''Food'', Num 100, Str ''Expense'', Str ''a''],
               [Str ''2024-03-02 09:15'', Str ''Housing'', Num 900, Str ''Expense'', Str ''b''],
               [Str ''2024-03-03 10:30'', Str ''Food'', Num 200, Str ''Expense'', Str ''c''],
               [Str ''2024-03-04 11:45'', Str ''Food'', Num 500, Str ''Income/Savings'', Str ''d''],
               [Str ''2024-03-05 12:00'', Str ''Food'', Num 50, Str ''Expense'', Str ''e'']]\<rparr>)]"

text \<open>A ledger in which somebody has typed a date that cannot be read.\<close>

definition ledger_bad_date :: excel_file where
  "ledger_bad_date = Workbook [(''Expenses'',
     \<lparr>header = [''Date'', ''Category'', ''Amount (INR)'', ''Type'', ''Note''],
      cells = [[Str ''2024-01-05 10:30'', Str ''Food'', Num 250, Str ''Expense'', Str ''lunch''],
               [Str ''last week'', Str ''Housing'', Num 80, Str ''Expense'', Str '''']]\<rparr>)]"

text \<open>
  What the second tab makes of \<open>ledger_two\<close> for the expenses of January 2024: the
  frame \<open>data\<close> and the frame \<open>filtered\<close>.
\<close>

definition january_data :: frame where
  "january_data =
     \<lparr>columns = [''Date'', ''Category'', ''Amount (INR)'', ''Type'', ''Note'', ''Month''],
      body = [(0, [Stamp \<lparr>year = 2024, month = 1, day = 5, hour = 10, minute = 30\<rparr>,
                   Str ''Food'', Num 250, Str ''Expense'', Str ''lunch'', Str ''2024-01'']),
              (1, [Stamp \<lparr>year = 2024, month = 2, day = 7, hour = 9, minute = 5\<rparr>,
                   Str ''Housing'', Num 80, Str ''Income/Savings'', NaN,
                   Str ''2024-02''])]\<rparr>"

definition january_expenses :: frame where
  "january_expenses =
     \<lparr>columns = [''Date'', ''Category'', ''Amount (INR)'', ''Type'', ''Note'', ''Month''],
      body = [(0, [Stamp \<lparr>year = 2024, month = 1, day = 5, hour = 10, minute = 30\<rparr>,
                   Str ''Food'', Num 250, Str ''Expense'', Str ''lunch'', Str ''2024-01''])]\<rparr>"

text \<open>The expenses of March 2024 of \<open>ledger_five\<close>, as the second tab selects them.\<close>

definition march_expenses :: frame where
  "march_expenses =
     \<lparr>columns = [''Date'', ''Category'', ''Amount (INR)'', ''Type'', ''Note'', ''Month''],
      body = [(0, [Stamp \<lparr>year = 2024, month = 3, day = 1, hour = 8, minute = 0\<rparr>,
                   Str ''Food'', Num 100, Str ''Expense'', Str ''a'', Str ''2024-03'']),
              (1, [Stamp \<lparr>year = 2024, month = 3, day = 2, hour = 9, minute = 15\<rparr>,
                   Str ''Housing'', Num 900, Str ''Expense'', Str ''b'', Str ''2024-03'']),
              (2, [Stamp \<lparr>year = 2024, month = 3, day = 3, hour = 10, minute = 30\<rparr>,
                   Str ''Food'', Num 200, Str ''Expense'', Str ''c'', Str ''2024-03'']),
              (4, [Stamp \<lparr>year = 2024, month = 3, day = 5, hour = 12, minute = 0\<rparr>,
                   Str ''Food'', Num 50, Str ''Expense'', Str ''e'', Str ''2024-03''])]\<rparr>"


section \<open>Properties\<close>

subsection \<open>What the reader makes of a cell\<close>

lemma read_cell_Num: "read_cell b (Num q) = Num q"
  by (simp add: read_cell_def na_mask_def)

lemma read_cell_NaN: "read_cell b NaN = NaN"
  by (simp add: read_cell_def na_mask_def)

lemma read_cell_Stamp: "read_cell b (Stamp t) = Stamp t"
  by (simp add: read_cell_def na_mask_def)

lemma read_cell_NA: "missing_text s \<Longrightarrow> read_cell b (Str s) = NaN"
  by (simp add: read_cell_def na_mask_def)

lemma read_cell_plain: "plain s \<Longrightarrow> read_cell b (Str s) = Str s"
  by (simp add: read_cell_def na_mask_def plain_def)

text \<open>Text that begins with a letter, and a date in the program's form, spell no number.\<close>

lemma number_of_word:
  assumes "\<not> is_space c" and "\<not> is_digit c" and "c \<notin> set ''+-.''"
  shows "number_of (c # cs) = None"
  using assms by (simp add: number_of_def after_sign_def is_sign_def starts_with_def Let_def)

lemma number_of_date:
  assumes "is_digit d1" "is_digit d2" "is_digit d3" "is_digit d4"
  shows "number_of (d1 # d2 # d3 # d4 # CHR ''-'' # cs) = None"
proof -
  have sp: "\<not> is_space d" if "is_digit d" for d
    using that by (auto simp: is_space_def is_digit_def digit_val_def split: if_splits)
  have sg: "d \<noteq> CHR ''+''" "d \<noteq> CHR ''-''" if "is_digit d" for d
    using that by (auto simp: is_digit_def digit_val_def)
  have nd: "\<not> is_digit CHR ''-''" "\<not> is_space CHR ''-''"
    by (simp_all add: is_digit_def digit_val_def is_space_def)
  show ?thesis
    using assms sp[OF assms(1)] sg[OF assms(1)] nd
    by (simp add: number_of_def after_sign_def is_sign_def starts_with_def Let_def)
qed

lemmas word_defs = plain_def missing_text_def NA_VALUES_def ERROR_CODES_def formula_def
  value_word_def to_lower_def after_sign_def is_sign_def is_space_def is_digit_def digit_val_def

lemma plain_examples:
  "plain ''Food''" "plain ''Housing''" "plain ''Expense''" "plain ''Income/Savings''"
  "plain ''lunch''" "plain ''a''" "plain ''b''" "plain ''c''" "plain ''d''" "plain ''e''"
  "plain ''last week''"
  by (simp_all add: word_defs number_of_word)

lemma plain_dates:
  "plain ''2024-01-05 10:30''" "plain ''2024-02-07 09:05''"
  "plain ''2024-03-01 08:00''" "plain ''2024-03-02 09:15''" "plain ''2024-03-03 10:30''"
  "plain ''2024-03-04 11:45''" "plain ''2024-03-05 12:00''"
  by (simp_all add: word_defs number_of_date)

lemma missing_empty: "missing_text []"
  by (simp add: missing_text_def NA_VALUES_def)

lemmas read_simps = read_rows_def read_row_def cell_at_def read_cell_Num read_cell_NaN read_cell_Stamp
  read_cell_NA read_cell_plain plain_examples plain_dates missing_empty

lemma load_workbook:
  "load_data (Workbook [(''Expenses'', sh)])
   = \<lparr>columns = header sh, body = range_index (read_rows (header sh) (cells sh))\<rparr>"
  by (simp add: load_data_def read_excel_def SHEET_NAME_def)

lemma load_ledger_two:
  "load_data ledger_two =
     \<lparr>columns = [''Date'', ''Category'', ''Amount (INR)'', ''Type'', ''Note''],
      body = [(0, [Str ''2024-01-05 10:30'', Str ''Food'', Num 250, Str ''Expense'', Str ''lunch'']),
              (1, [Str ''2024-02-07 09:05'', Str ''Housing'', Num 80, Str ''Income/Savings'',
                   NaN])]\<rparr>"
  by (simp add: ledger_two_def load_workbook range_index_def read_simps upt_rec)

lemma load_ledger_five:
  "load_data ledger_five =
     \<lparr>columns = [''Date'', ''Category'', ''Amount (INR)'', ''Type'', ''Note''],
      body = [(0, [Str ''2024-03-01 08:00'', Str ''Food'', Num 100, Str ''Expense'', Str ''a'']),
              (1, [Str ''2024-03-02 09:15'', Str ''Housing'', Num 900, Str ''Expense'', Str ''b'']),
              (2, [Str ''2024-03-03 10:30'', Str ''Food'', Num 200, Str ''Expense'', Str ''c'']),
              (3, [Str ''2024-03-04 11:45'', Str ''Food'', Num 500, Str ''Income/Savings'',
                   Str ''d'']),
              (4, [Str ''2024-03-05 12:00'', Str ''Food'', Num 50, Str ''Expense'', Str ''e''])]\<rparr>"
  by (simp add: ledger_five_def load_workbook range_index_def read_simps upt_rec)

lemma load_ledger_bad_date:
  "load_data ledger_bad_date =
     \<lparr>columns = [''Date'', ''Category'', ''Amount (INR)'', ''Type'', ''Note''],
      body = [(0, [Str ''2024-01-05 10:30'', Str ''Food'', Num 250, Str ''Expense'', Str ''lunch'']),
              (1, [Str ''last week'', Str ''Housing'', Num 80, Str ''Expense'', NaN])]\<rparr>"
  by (simp add: ledger_bad_date_def load_workbook range_index_def read_simps upt_rec)

subsection \<open>Evaluation of the second tab on a given ledger\<close>

lemmas frame_defs = range_index_def rows_def index_def
  df_empty_def get_col_def at_col_def cell_at_def assign_def set_cell_def pad_def select_def
  reset_index_def drop_rows_def save_data_def to_excel_def SHEET_NAME_def DataFrame_def

lemmas date_defs = date_processing_def to_datetime_def strptime_def digit_val_def
  days_in_month_def to_period_M_def astype_str_def pad2_def pad4_def digit_def

lemmas tab2_defs = tab2_delete_def tab2_view_def monthly_data_def filter_type_def
  delete_selected_rows_def options_def

subsection \<open>Frames, loading and saving\<close>

lemma rows_range_index: "map snd (range_index rs) = rs"
  by (simp add: range_index_def)

lemma load_save:
  "load_data (save_data df)
   = \<lparr>columns = columns df, body = range_index (read_rows (columns df) (rows df))\<rparr>"
  by (simp add: load_data_def save_data_def read_excel_def to_excel_def)

lemma rows_load_save: "rows (load_data (save_data df)) = read_rows (columns df) (rows df)"
  by (simp add: load_save rows_def range_index_def)

lemma load_initial: "load_data (initialize Missing) = DataFrame COLUMNS"
  by (simp add: load_data_def read_excel_def initialize_def to_excel_def DataFrame_def
      range_index_def rows_def read_rows_def)

lemma index_load_data: "index (load_data f) = [0 ..< length (body (load_data f))]"
  by (auto simp: load_data_def read_excel_def index_def DataFrame_def range_index_def
      read_rows_def split: excel_file.splits option.splits)

lemma distinct_index_load: "distinct (index (load_data f))"
  by (simp add: index_load_data)

lemma rows_reset_index: "rows (reset_index df) = rows df"
  by (simp add: reset_index_def rows_def range_index_def)

lemma columns_select: "columns (select p df) = columns df"
  by (simp add: select_def)

lemma body_select: "body (select p df) = filter (\<lambda>(i, r). p r) (body df)"
  by (simp add: select_def)

lemma index_assign: "length vs = length (body df) \<Longrightarrow> index (assign df c vs) = index df"
proof -
  assume len: "length vs = length (body df)"
  have "map fst (map (\<lambda>((i, r), v). (i, set_cell (columns df) c v r)) (zip (body df) vs))
        = map fst (map fst (zip (body df) vs))"
    by (simp add: case_prod_unfold)
  also have "\<dots> = map fst (body df)"
    using len by simp
  finally show ?thesis
    by (simp add: assign_def index_def)
qed

lemma columns_assign_mem: "c' \<in> set (columns df) \<Longrightarrow> c' \<in> set (columns (assign df c vs))"
  by (simp add: assign_def)

lemma same_label_same_row:
  "distinct (map fst xs) \<Longrightarrow> (i, r) \<in> set xs \<Longrightarrow> (i, r') \<in> set xs \<Longrightarrow> r = r'"
  by (meson eq_key_imp_eq_value)

subsection \<open>The second tab up to the selection\<close>

lemma date_processing_ok:
  assumes "''Date'' \<in> set (columns df)"
  shows "\<exists>data. date_processing df = Inr data \<and> index data = index df
           \<and> set (columns df) \<subseteq> set (columns data)"
  using assms
  apply (simp add: date_processing_def get_col_def Let_def columns_assign_mem)
  apply (simp add: index_assign rows_def)
  apply (auto simp: assign_def)
  done

lemma date_processing_Inr:
  assumes "date_processing df = Inr data"
  shows "index data = index df" and "set (columns df) \<subseteq> set (columns data)"
proof -
  have d: "''Date'' \<in> set (columns df)"
    using assms by (auto simp: date_processing_def get_col_def split: if_splits)
  from date_processing_ok[OF d] assms
  show "index data = index df" and "set (columns df) \<subseteq> set (columns data)"
    by auto
qed

lemma filter_type_Inr:
  assumes "filter_type sh monthly = Inr filtered"
  shows "columns filtered = columns monthly"
    and "body filtered =
           filter (\<lambda>(i, r).
                     (sh = ExpensesOnly \<longrightarrow> at_col (columns monthly) ''Type'' r = Str ''Expense'')
                   \<and> (sh = SavingsOnly \<longrightarrow> at_col (columns monthly) ''Type'' r \<noteq> Str ''Expense''))
                  (body monthly)"
  using assms
  by (cases sh; auto simp: filter_type_def select_def split: if_splits)+

lemma tab2_view_Some:
  assumes "tab2_view f m sh = Inr (Some (data, filtered))"
  shows "date_processing (load_data f) = Inr data"
    and "filter_type sh (monthly_data data m) = Inr filtered"
    and "\<not> df_empty (load_data f)"
  using assms
  by (auto simp: tab2_view_def Let_def split: if_splits sum.splits)

lemma view_body:
  assumes "tab2_view f m sh = Inr (Some (data, filtered))"
  shows "body filtered =
           filter (\<lambda>(i, r). at_col (columns data) ''Month'' r = Str m
                   \<and> (sh = ExpensesOnly \<longrightarrow> at_col (columns data) ''Type'' r = Str ''Expense'')
                   \<and> (sh = SavingsOnly \<longrightarrow> at_col (columns data) ''Type'' r \<noteq> Str ''Expense''))
                  (body data)"
    and "columns filtered = columns data"
proof -
  note v = tab2_view_Some[OF assms]
  from filter_type_Inr[OF v(2)] show "columns filtered = columns data"
    by (simp add: monthly_data_def columns_select)
  from filter_type_Inr(2)[OF v(2)] show "body filtered =
           filter (\<lambda>(i, r). at_col (columns data) ''Month'' r = Str m
                   \<and> (sh = ExpensesOnly \<longrightarrow> at_col (columns data) ''Type'' r = Str ''Expense'')
                   \<and> (sh = SavingsOnly \<longrightarrow> at_col (columns data) ''Type'' r \<noteq> Str ''Expense''))
                  (body data)"
    by (simp add: monthly_data_def columns_select body_select case_prod_unfold)
qed


subsection \<open>Cells under a column name\<close>

lemma col_pos_Some: "col_pos cols c = Some k \<Longrightarrow> k < length cols \<and> cols ! k = c"
  by (induction cols arbitrary: k) (auto split: if_splits)

lemma col_pos_None: "col_pos cols c = None \<longleftrightarrow> c \<notin> set cols"
  by (induction cols) auto

lemma col_pos_append: "c \<in> set cols \<Longrightarrow> col_pos (cols @ ds) c = col_pos cols c"
  by (induction cols) auto

lemma col_pos_last: "c \<notin> set cols \<Longrightarrow> col_pos (cols @ [c]) c = Some (length cols)"
  by (induction cols) auto

lemma length_pad: "length (pad n r) = n"
  by (simp add: pad_def)

lemma cell_at_pad: "k < n \<Longrightarrow> cell_at (pad n r) k = cell_at r k"
  by (auto simp: pad_def cell_at_def nth_append)

lemma cell_at_pad_append: "k < n \<Longrightarrow> cell_at (pad n r @ xs) k = cell_at r k"
proof -
  assume k: "k < n"
  then have "cell_at (pad n r @ xs) k = cell_at (pad n r) k"
    by (simp add: cell_at_def length_pad nth_append)
  with k show ?thesis by (simp add: cell_at_pad)
qed

lemma cell_at_pad_end: "cell_at (pad n r @ [v]) n = v"
  by (simp add: cell_at_def length_pad nth_append)

lemma cell_at_pad_upd_same: "k < n \<Longrightarrow> cell_at ((pad n r)[k := v]) k = v"
  by (simp add: cell_at_def length_pad)

lemma cell_at_pad_upd_other: "k < n \<Longrightarrow> k \<noteq> j \<Longrightarrow> cell_at ((pad n r)[j := v]) k = cell_at r k"
proof -
  assume k: "k < n" and "k \<noteq> j"
  then have "cell_at ((pad n r)[j := v]) k = cell_at (pad n r) k"
    by (simp add: cell_at_def length_pad)
  with k show ?thesis by (simp add: cell_at_pad)
qed

lemma at_col_set_cell_same:
  "at_col (if c \<in> set cols then cols else cols @ [c]) c (set_cell cols c v r) = v"
proof (cases "col_pos cols c")
  case None
  then have "c \<notin> set cols" by (simp add: col_pos_None)
  then show ?thesis
    using None by (simp add: at_col_def set_cell_def col_pos_last cell_at_pad_end)
next
  case (Some k)
  then have "c \<in> set cols" using col_pos_None[of cols c] by auto
  then show ?thesis
    using Some col_pos_Some[OF Some] by (simp add: at_col_def set_cell_def cell_at_pad_upd_same)
qed

lemma at_col_set_cell_other:
  assumes "c' \<in> set cols" and "c' \<noteq> c"
  shows "at_col (if c \<in> set cols then cols else cols @ [c]) c' (set_cell cols c v r)
         = at_col cols c' r"
proof -
  from assms(1) obtain k' where k': "col_pos cols c' = Some k'"
    using col_pos_None[of cols c'] by auto
  note p' = col_pos_Some[OF k']
  show ?thesis
  proof (cases "col_pos cols c")
    case None
    then have "c \<notin> set cols" by (simp add: col_pos_None)
    then show ?thesis
      using None k' p' assms(1)
      by (simp add: at_col_def set_cell_def col_pos_append cell_at_pad_append)
  next
    case (Some k)
    then have "c \<in> set cols" using col_pos_None[of cols c] by auto
    moreover have "k' \<noteq> k"
      using col_pos_Some[OF Some] p' assms(2) by auto
    ultimately show ?thesis
      using Some k' p'
      by (simp add: at_col_def set_cell_def cell_at_pad_upd_other)
  qed
qed

subsection \<open>What the date processing makes of each row\<close>

lemma assign_map:
  "assign df c (map h (rows df))
   = \<lparr>columns = (if c \<in> set (columns df) then columns df else columns df @ [c]),
      body = map (\<lambda>(i, r). (i, set_cell (columns df) c (h r) r)) (body df)\<rparr>"
proof -
  have "map (\<lambda>((i, r), v). (i, set_cell cols c v r)) (zip xs (map h (map snd xs)))
        = map (\<lambda>(i, r). (i, set_cell cols c (h r) r)) xs" for cols xs
    by (induction xs) auto
  then show ?thesis
    by (simp add: assign_def rows_def)
qed

lemma date_processing_body:
  assumes "date_processing df = Inr data"
  shows "columns data
         = (if ''Month'' \<in> set (columns df) then columns df else columns df @ [''Month''])"
    and "body data = map (\<lambda>(i, r). (i, processed (columns df) r)) (body df)"
proof -
  let ?cols = "columns df"
  let ?d1 = "assign df ''Date'' (map (\<lambda>r. to_datetime (at_col ?cols ''Date'' r)) (rows df))"
  have d: "''Date'' \<in> set ?cols"
    using assms by (auto simp: date_processing_def get_col_def split: if_splits)
  have d1: "?d1 = \<lparr>columns = ?cols,
                    body = map (\<lambda>(i, r). (i, set_cell ?cols ''Date'' (to_datetime (at_col ?cols ''Date'' r)) r))
                             (body df)\<rparr>"
    using d by (simp add: assign_map)
  have c1: "columns ?d1 = ?cols"
    by (simp add: d1)
  have "date_processing df
        = Inr (assign ?d1 ''Month''
                 (map (\<lambda>r. astype_str (to_period_M (at_col ?cols ''Date'' r))) (rows ?d1)))"
    using d by (simp add: date_processing_def get_col_def c1 Let_def comp_def)
  with assms have data: "data = assign ?d1 ''Month''
                 (map (\<lambda>r. astype_str (to_period_M (at_col ?cols ''Date'' r))) (rows ?d1))"
    by simp
  show "columns data = (if ''Month'' \<in> set ?cols then ?cols else ?cols @ [''Month''])"
    unfolding data assign_map using d by simp
  have "body data
        = map (\<lambda>(i, r). (i, set_cell ?cols ''Month''
                               (astype_str (to_period_M (at_col ?cols ''Date'' r))) r))
              (body ?d1)"
    unfolding data assign_map using d by simp
  then show "body data = map (\<lambda>(i, r). (i, processed ?cols r)) (body df)"
    using d by (simp add: assign_map processed_def Let_def case_prod_unfold)
qed

lemma processed_cells:
  assumes "''Date'' \<in> set cols"
  shows "at_col (if ''Month'' \<in> set cols then cols else cols @ [''Month'']) ''Month''
           (processed cols r) = Str (month_of (at_col cols ''Date'' r))"
    and "at_col (if ''Month'' \<in> set cols then cols else cols @ [''Month'']) ''Date''
           (processed cols r) = to_datetime (at_col cols ''Date'' r)"
    and "c \<in> set cols \<Longrightarrow> c \<noteq> ''Date'' \<Longrightarrow> c \<noteq> ''Month'' \<Longrightarrow>
         at_col (if ''Month'' \<in> set cols then cols else cols @ [''Month'']) c
           (processed cols r) = at_col cols c r"
proof -
  let ?r1 = "set_cell cols ''Date'' (to_datetime (at_col cols ''Date'' r)) r"
  let ?cols' = "if ''Month'' \<in> set cols then cols else cols @ [''Month'']"
  have str: "astype_str p = Str (text_of (astype_str p))" for p
    by (simp add: astype_str_def text_of_def split: option.splits prod.splits)
  have r1: "at_col cols ''Date'' ?r1 = to_datetime (at_col cols ''Date'' r)"
    using at_col_set_cell_same[of "''Date''" cols] assms by simp
  have other: "at_col cols c ?r1 = at_col cols c r" if "c \<in> set cols" "c \<noteq> ''Date''" for c
    using at_col_set_cell_other[OF that, of "to_datetime (at_col cols ''Date'' r)" r] assms
    by simp
  have p: "processed cols r
           = set_cell cols ''Month'' (astype_str (to_period_M (to_datetime (at_col cols ''Date'' r)))) ?r1"
    by (simp add: processed_def Let_def r1)
  show "at_col ?cols' ''Month'' (processed cols r) = Str (month_of (at_col cols ''Date'' r))"
    unfolding p at_col_set_cell_same month_of_def by (rule str)
  have "at_col ?cols' ''Date'' (processed cols r) = at_col cols ''Date'' ?r1"
    unfolding p by (rule at_col_set_cell_other) (use assms in simp_all)
  then show "at_col ?cols' ''Date'' (processed cols r) = to_datetime (at_col cols ''Date'' r)"
    by (simp only: r1)
  show "at_col ?cols' c (processed cols r) = at_col cols c r"
    if "c \<in> set cols" "c \<noteq> ''Date''" "c \<noteq> ''Month''"
  proof -
    have "at_col ?cols' c (processed cols r) = at_col cols c ?r1"
      unfolding p by (rule at_col_set_cell_other) (use that in simp_all)
    then show ?thesis
      by (simp only: other[OF that(1,2)])
  qed
qed

lemma view_of_ledger:
  assumes "tab2_view f m sh = Inr (Some (data, filtered))"
  shows "body filtered =
           map (\<lambda>(i, r). (i, processed (columns (load_data f)) r))
             (filter (\<lambda>(i, r). month_of (at_col (columns (load_data f)) ''Date'' r) = m
                     \<and> (sh = ExpensesOnly \<longrightarrow>
                          at_col (columns (load_data f)) ''Type'' r = Str ''Expense'')
                     \<and> (sh = SavingsOnly \<longrightarrow>
                          at_col (columns (load_data f)) ''Type'' r \<noteq> Str ''Expense''))
                (body (load_data f)))"
proof -
  let ?L = "load_data f"
  let ?cols = "columns ?L"
  note v = tab2_view_Some[OF assms]
  note b = date_processing_body[OF v(1)]
  have d: "''Date'' \<in> set ?cols"
    using v(1) by (auto simp: date_processing_def get_col_def split: if_splits)
  have ty: "''Type'' \<in> set ?cols" if "sh \<noteq> AllTypes"
  proof -
    from that v(2) have "''Type'' \<in> set (columns data)"
      by (cases sh) (auto simp: filter_type_def monthly_data_def columns_select split: if_splits)
    then show ?thesis
      by (auto simp: b(1) split: if_splits)
  qed
  have cell_m: "at_col (columns data) ''Month'' (processed ?cols r)
                = Str (month_of (at_col ?cols ''Date'' r))" for r
    unfolding b(1) by (rule processed_cells(1)[OF d])
  have cell_t: "at_col (columns data) ''Type'' (processed ?cols r) = at_col ?cols ''Type'' r"
    if "sh \<noteq> AllTypes" for r
    unfolding b(1) by (rule processed_cells(3)[OF d ty[OF that]]) simp_all
  have "body filtered =
          filter (\<lambda>(i, r). at_col (columns data) ''Month'' r = Str m
                  \<and> (sh = ExpensesOnly \<longrightarrow> at_col (columns data) ''Type'' r = Str ''Expense'')
                  \<and> (sh = SavingsOnly \<longrightarrow> at_col (columns data) ''Type'' r \<noteq> Str ''Expense''))
            (map (\<lambda>(i, r). (i, processed ?cols r)) (body ?L))"
    using view_body(1)[OF assms] by (simp only: b(2))
  also have "\<dots> =
          map (\<lambda>(i, r). (i, processed ?cols r))
            (filter (\<lambda>(i, r). month_of (at_col ?cols ''Date'' r) = m
                     \<and> (sh = ExpensesOnly \<longrightarrow> at_col ?cols ''Type'' r = Str ''Expense'')
                     \<and> (sh = SavingsOnly \<longrightarrow> at_col ?cols ''Type'' r \<noteq> Str ''Expense''))
                (body ?L))"
    unfolding filter_map
    by (rule arg_cong[where f = "map _"], rule filter_cong[OF refl])
       (cases sh; auto simp: cell_m cell_t)
  finally show ?thesis .
qed

lemma month_of_unreadable: "to_datetime c = NaN \<Longrightarrow> month_of c = ''NaT''"
  by (simp add: month_of_def to_period_M_def astype_str_def text_of_def)

lemma set_month_options:
  assumes "date_processing df = Inr data"
  shows "set (month_options data) = (\<lambda>r. month_of (at_col (columns df) ''Date'' r)) ` set (rows df)"
proof -
  note b = date_processing_body[OF assms]
  have d: "''Date'' \<in> set (columns df)"
    using assms by (auto simp: date_processing_def get_col_def split: if_splits)
  have m: "map (at_col (columns data) ''Month'') (rows data)
           = map (\<lambda>r. Str (month_of (at_col (columns df) ''Date'' r))) (rows df)"
    unfolding rows_def b(2) b(1)
    by (simp add: comp_def case_prod_unfold processed_cells(1)[OF d])
  show ?thesis
    unfolding month_options_def m
    by (simp add: unique_def dropna_def text_of_def image_image comp_def)
qed

lemma nths_by_labels:
  "map snd (filter (\<lambda>(i, r). i \<notin> A) (zip [0 ..< length rs] rs)) = nths rs {i. i \<notin> A}"
proof -
  have "zip rs [0 ..< length rs] = map (\<lambda>(i, r). (r, i)) (zip [0 ..< length rs] rs)"
    by (subst zip_commute) simp
  then show ?thesis
    by (simp add: nths_def filter_map comp_def case_prod_unfold)
qed

lemma index_view:
  assumes "tab2_view f m sh = Inr (Some (data, filtered))"
  shows "index filtered =
           map fst
             (filter (\<lambda>(i, r). month_of (at_col (columns (load_data f)) ''Date'' r) = m
                     \<and> (sh = ExpensesOnly \<longrightarrow>
                          at_col (columns (load_data f)) ''Type'' r = Str ''Expense'')
                     \<and> (sh = SavingsOnly \<longrightarrow>
                          at_col (columns (load_data f)) ''Type'' r \<noteq> Str ''Expense''))
                (body (load_data f)))"
  unfolding index_def view_of_ledger[OF assms]
  by (simp add: comp_def case_prod_unfold)

subsection \<open>Deleting the selected rows\<close>

lemma tab2_delete_saved:
  assumes "tab2_view f m sh = Inr (Some (data, filtered))"
    and "selected_rows \<noteq> []"
    and "set selected_rows \<subseteq> set (index data)"
  shows "tab2_delete f m sh selected_rows
         = Inr (save_data (reset_index
                  (data\<lparr>body := filter (\<lambda>(i, r). i \<notin> set selected_rows) (body data)\<rparr>)))"
  using assms by (simp add: tab2_delete_def delete_selected_rows_def drop_rows_def)

text \<open>
  Whatever is deleted, the file written has the column \<open>Month\<close>: the frame saved is the
  one the date processing has changed.
\<close>

lemma delete_writes_month_column:
  assumes "tab2_view f m sh = Inr (Some (data, filtered))"
    and "selected_rows \<noteq> []"
    and "tab2_delete f m sh selected_rows = Inr f'"
  shows "''Month'' \<in> set (columns (load_data f'))"
proof -
  have c: "''Month'' \<in> set (columns data)"
    using date_processing_body(1)[OF tab2_view_Some(1)[OF assms(1)]] by (simp split: if_splits)
  from assms obtain df_all where "drop_rows data selected_rows = Inr df_all"
    and f': "f' = save_data (reset_index df_all)"
    by (auto simp: tab2_delete_def delete_selected_rows_def split: sum.splits)
  then have "columns df_all = columns data"
    by (auto simp: drop_rows_def split: if_splits)
  with c show ?thesis
    by (simp add: f' load_save reset_index_def)
qed

text \<open>
  Which rows stay: those at the positions not selected, in their order, each as the date
  processing has left it, that is with every cell but the date as it was loaded. A label
  that no row carries stops the deletion with \<open>KeyError\<close> before anything is written.
\<close>

lemma tab2_delete_file:
  assumes "tab2_view f m sh = Inr (Some (data, filtered))"
    and "selected_rows \<noteq> []"
    and "set selected_rows \<subseteq> set (index data)"
  shows "tab2_delete f m sh selected_rows
         = Inr (Workbook [(SHEET_NAME,
             \<lparr>header = columns data,
              cells = map snd (filter (\<lambda>(i, r). i \<notin> set selected_rows) (body data))\<rparr>)])"
  unfolding tab2_delete_saved[OF assms]
  by (simp add: save_data_def to_excel_def reset_index_def rows_def range_index_def)

lemma delete_keeps_positions:
  assumes "tab2_view f m sh = Inr (Some (data, filtered))"
    and "selected_rows \<noteq> []"
    and "set selected_rows \<subseteq> set (index data)"
  shows "tab2_delete f m sh selected_rows
         = Inr (Workbook [(SHEET_NAME,
             \<lparr>header = columns data,
              cells = map (processed (columns (load_data f)))
                        (nths (rows (load_data f)) {i. i \<notin> set selected_rows})\<rparr>)])"
proof -
  let ?L = "load_data f"
  note v = tab2_view_Some[OF assms(1)]
  have bl: "body ?L = zip [0 ..< length (rows ?L)] (rows ?L)"
    using index_load_data[of f] zip_map_fst_snd[of "body ?L"]
    by (simp add: index_def rows_def)
  have "map snd (filter (\<lambda>(i, r). i \<notin> set selected_rows) (body data))
        = map (processed (columns ?L))
            (map snd (filter (\<lambda>(i, r). i \<notin> set selected_rows) (body ?L)))"
    unfolding date_processing_body(2)[OF v(1)] filter_map
    by (simp add: comp_def case_prod_unfold)
  also have "map snd (filter (\<lambda>(i, r). i \<notin> set selected_rows) (body ?L))
             = nths (rows ?L) {i. i \<notin> set selected_rows}"
    by (subst bl) (rule nths_by_labels)
  finally show ?thesis
    unfolding tab2_delete_file[OF assms] by simp
qed

lemma delete_unknown_label:
  assumes "selected_rows \<noteq> []" and "\<not> set selected_rows \<subseteq> set (index data)"
  shows "delete_selected_rows data selected_rows f = Inl KeyError"
  using assms by (simp add: delete_selected_rows_def drop_rows_def)

subsection \<open>Additions\<close>


lemma add_entry_rejected:
  "amount \<le> 0 \<Longrightarrow> add_entry now category amount txn_type nt f = (f, Rejected)"
  by (simp add: add_entry_def)

lemma add_entry_saved:
  "0 < amount \<Longrightarrow>
   fst (add_entry now category amount txn_type nt f)
   = save_data (concat_frames (load_data f) (new_entry now category amount txn_type nt))"
  by (simp add: add_entry_def Let_def)














text \<open>The file itself after an addition, and the example ledgers as files the program writes.\<close>

lemma reindex_same: "length r = 5 \<Longrightarrow> reindex_row COLUMNS COLUMNS r = r"
  by (auto simp: reindex_row_def COLUMNS_def at_col_def cell_at_def length_Suc_conv
      eval_nat_numeral)

lemma map_reindex_same:
  "\<forall>r\<in>set rs. length r = 5 \<Longrightarrow> map (reindex_row COLUMNS COLUMNS) rs = rs"
  by (induction rs) (simp_all add: reindex_same)

lemma length_entry_row: "length (entry_row e) = 5"
  by (simp add: entry_row_def split: prod.splits)

lemma length_COLUMNS: "length COLUMNS = 5"
  by (simp add: COLUMNS_def)

lemma add_entry_workbook:
  assumes "0 < amount"
  shows "fst (add_entry now category amount txn_type nt
                (Workbook [(SHEET_NAME, \<lparr>header = COLUMNS, cells = rs\<rparr>)]))
         = Workbook [(SHEET_NAME,
             \<lparr>header = COLUMNS,
              cells = read_rows COLUMNS rs
                      @ [entry_row (now, category, amount, txn_type, nt)]\<rparr>)]"
proof -
  let ?f = "Workbook [(SHEET_NAME, \<lparr>header = COLUMNS, cells = rs\<rparr>)]"
  have l: "load_data ?f = \<lparr>columns = COLUMNS, body = range_index (read_rows COLUMNS rs)\<rparr>"
    by (simp add: load_data_def read_excel_def)
  have five: "\<forall>r\<in>set (read_rows COLUMNS rs). length r = 5"
    by (simp add: read_rows_def read_row_def COLUMNS_def)
  have nc: "columns (new_entry now category amount txn_type nt) = COLUMNS"
    by (simp add: new_entry_def COLUMNS_def)
  have nr: "rows (new_entry now category amount txn_type nt)
            = [entry_row (now, category, amount, txn_type, nt)]"
    by (simp add: new_entry_def rows_def entry_row_def)
  have lr: "rows (load_data ?f) = read_rows COLUMNS rs" and lc: "columns (load_data ?f) = COLUMNS"
    by (simp_all add: l rows_def range_index_def)
  have "concat_frames (load_data ?f) (new_entry now category amount txn_type nt)
        = \<lparr>columns = COLUMNS,
           body = range_index (read_rows COLUMNS rs
                               @ [entry_row (now, category, amount, txn_type, nt)])\<rparr>"
    unfolding concat_frames_def Let_def nc nr lr lc
    by (simp add: map_reindex_same[OF five] reindex_same[OF length_entry_row])
  then show ?thesis
    unfolding add_entry_saved[OF assms]
    by (simp add: save_data_def to_excel_def rows_def range_index_def)
qed

lemma initial_workbook:
  "initialize Missing = Workbook [(SHEET_NAME, \<lparr>header = COLUMNS, cells = []\<rparr>)]"
  by (simp add: initialize_def to_excel_def DataFrame_def rows_def)

lemmas written_simps = initial_workbook add_entry_workbook entry_row_def strftime_def pad2_def
  pad4_def digit_def read_simps

lemma ledger_two_written:
  "add_entries
     [(\<lparr>year = 2024, month = 1, day = 5, hour = 10, minute = 30\<rparr>,
       ''Food'', 250, ''Expense'', ''lunch''),
      (\<lparr>year = 2024, month = 2, day = 7, hour = 9, minute = 5\<rparr>,
       ''Housing'', 80, ''Income/Savings'', '''')]
     (initialize Missing) = ledger_two"
proof -
  have "add_entries
     [(\<lparr>year = 2024, month = 1, day = 5, hour = 10, minute = 30\<rparr>,
       ''Food'', 250, ''Expense'', ''lunch''),
      (\<lparr>year = 2024, month = 2, day = 7, hour = 9, minute = 5\<rparr>,
       ''Housing'', 80, ''Income/Savings'', '''')]
     (initialize Missing)
    = Workbook [(SHEET_NAME,
        \<lparr>header = COLUMNS,
         cells = [[Str ''2024-01-05 10:30'', Str ''Food'', Num 250, Str ''Expense'', Str ''lunch''],
                  [Str ''2024-02-07 09:05'', Str ''Housing'', Num 80, Str ''Income/Savings'',
                   Str '''']]\<rparr>)]"
    by (simp add: written_simps length_COLUMNS upt_rec)
  then show ?thesis
    by (simp add: ledger_two_def SHEET_NAME_def COLUMNS_def)
qed

lemma ledger_five_written:
  "add_entries
     [(\<lparr>year = 2024, month = 3, day = 1, hour = 8, minute = 0\<rparr>, ''Food'', 100, ''Expense'', ''a''),
      (\<lparr>year = 2024, month = 3, day = 2, hour = 9, minute = 15\<rparr>,
       ''Housing'', 900, ''Expense'', ''b''),
      (\<lparr>year = 2024, month = 3, day = 3, hour = 10, minute = 30\<rparr>, ''Food'', 200, ''Expense'', ''c''),
      (\<lparr>year = 2024, month = 3, day = 4, hour = 11, minute = 45\<rparr>,
       ''Food'', 500, ''Income/Savings'', ''d''),
      (\<lparr>year = 2024, month = 3, day = 5, hour = 12, minute = 0\<rparr>, ''Food'', 50, ''Expense'', ''e'')]
     (initialize Missing) = ledger_five"
proof -
  have "add_entries
     [(\<lparr>year = 2024, month = 3, day = 1, hour = 8, minute = 0\<rparr>, ''Food'', 100, ''Expense'', ''a''),
      (\<lparr>year = 2024, month = 3, day = 2, hour = 9, minute = 15\<rparr>,
       ''Housing'', 900, ''Expense'', ''b''),
      (\<lparr>year = 2024, month = 3, day = 3, hour = 10, minute = 30\<rparr>, ''Food'', 200, ''Expense'', ''c''),
      (\<lparr>year = 2024, month = 3, day = 4, hour = 11, minute = 45\<rparr>,
       ''Food'', 500, ''Income/Savings'', ''d''),
      (\<lparr>year = 2024, month = 3, day = 5, hour = 12, minute = 0\<rparr>, ''Food'', 50, ''Expense'', ''e'')]
     (initialize Missing)
    = Workbook [(SHEET_NAME,
        \<lparr>header = COLUMNS,
         cells = [[Str ''2024-03-01 08:00'', Str ''Food'', Num 100, Str ''Expense'', Str ''a''],
                  [Str ''2024-03-02 09:15'', Str ''Housing'', Num 900, Str ''Expense'', Str ''b''],
                  [Str ''2024-03-03 10:30'', Str ''Food'', Num 200, Str ''Expense'', Str ''c''],
                  [Str ''2024-03-04 11:45'', Str ''Food'', Num 500, Str ''Income/Savings'',
                   Str ''d''],
                  [Str ''2024-03-05 12:00'', Str ''Food'', Num 50, Str ''Expense'', Str ''e'']]\<rparr>)]"
    by (simp add: written_simps length_COLUMNS upt_rec)
  then show ?thesis
    by (simp add: ledger_five_def SHEET_NAME_def COLUMNS_def)
qed




text \<open>
  C9. ``Remove Last Entry'' on a ledger without entries reports that there is nothing to
  remove, which no removal reports, and writes nothing: the file is the one it was, whether
  it holds a header only, is missing or cannot be read.
\<close>

theorem remove_last_empty:
  "(df_empty (load_data f) \<longrightarrow> remove_last f = (f, Nothing))
   \<and> (\<not> df_empty (load_data f) \<longrightarrow> snd (remove_last f) \<noteq> Nothing)"
  by (simp add: remove_last_def Let_def)

theorem remove_last_empty_witness:
  "df_empty (load_data (initialize Missing))
   \<and> remove_last (initialize Missing) = (initialize Missing, Nothing)
   \<and> \<not> df_empty (load_data ledger_two)
   \<and> snd (remove_last ledger_two) \<noteq> Nothing"
proof -
  have h: "df_empty (load_data (initialize Missing))"
    by (simp add: load_initial DataFrame_def df_empty_def)
  have k: "\<not> df_empty (load_data ledger_two)"
    by (simp add: load_ledger_two df_empty_def)
  from remove_last_empty[of "initialize Missing"] h
  have "remove_last (initialize Missing) = (initialize Missing, Nothing)"
    by blast
  moreover from remove_last_empty[of ledger_two] k
  have "snd (remove_last ledger_two) \<noteq> Nothing"
    by blast
  ultimately show ?thesis
    using h k by blast
qed

text \<open>
  C8. \<open>load_data\<close> has no failing outcome. Whenever the file cannot be read (it is missing,
  it is not a workbook, it has no sheet of the ledger's name) the result is the frame of
  the five columns without rows, which is also what the freshly created file gives: a new
  ledger and an unreadable one load alike.
\<close>

theorem load_data_fail_soft:
  "(read_excel f SHEET_NAME = Inl e \<longrightarrow> load_data f = DataFrame COLUMNS)
   \<and> read_excel Missing SHEET_NAME = Inl FileNotFoundError
   \<and> read_excel Corrupt SHEET_NAME = Inl BadZipFile
   \<and> load_data (initialize Missing) = DataFrame COLUMNS
   \<and> df_empty (DataFrame COLUMNS)"
proof -
  have "read_excel f SHEET_NAME = Inl e \<longrightarrow> load_data f = DataFrame COLUMNS"
    by (simp add: load_data_def)
  moreover have "read_excel Missing SHEET_NAME = Inl FileNotFoundError"
    and "read_excel Corrupt SHEET_NAME = Inl BadZipFile"
    by (simp_all add: read_excel_def)
  moreover have "df_empty (DataFrame COLUMNS)"
    by (simp add: DataFrame_def df_empty_def)
  ultimately show ?thesis
    using load_initial by blast
qed

theorem load_data_fail_soft_witness:
  "read_excel Corrupt SHEET_NAME = Inl BadZipFile \<and> load_data Corrupt = DataFrame COLUMNS"
proof -
  have h: "read_excel Corrupt SHEET_NAME = Inl BadZipFile"
    by (simp add: read_excel_def)
  from load_data_fail_soft[of Corrupt BadZipFile] h have "load_data Corrupt = DataFrame COLUMNS"
    by blast
  with h show ?thesis by blast
qed

subsection \<open>The type filter\<close>

text \<open>
  C2. For every ledger with entries and every month, selecting ``Savings Only'' gives
  exactly the rows of that month whose type is not \<open>Expense\<close>, whatever else the type is
  (a type other than \<open>Income/Savings\<close>, or none at all): the rows of the view are the rows
  of the processed frame with that month and such a type, and they stand at the positions
  of the ledger's rows whose date falls in the month and whose type is not \<open>Expense\<close>.
\<close>

theorem savings_only_is_not_expense:
  assumes "\<not> df_empty (load_data f)"
    and "''Date'' \<in> set (columns (load_data f))"
    and "''Type'' \<in> set (columns (load_data f))"
  shows "\<exists>data filtered.
           tab2_view f m SavingsOnly = Inr (Some (data, filtered))
         \<and> body filtered =
             filter (\<lambda>(i, r). at_col (columns data) ''Month'' r = Str m
                          \<and> at_col (columns data) ''Type'' r \<noteq> Str ''Expense'')
                    (body data)
         \<and> index filtered =
             map fst
               (filter (\<lambda>(i, r). month_of (at_col (columns (load_data f)) ''Date'' r) = m
                            \<and> at_col (columns (load_data f)) ''Type'' r \<noteq> Str ''Expense'')
                       (body (load_data f)))"
proof -
  from date_processing_ok[OF assms(2)] obtain data where
    d: "date_processing (load_data f) = Inr data" and
    c: "set (columns (load_data f)) \<subseteq> set (columns data)"
    by blast
  from c assms(3) have t: "''Type'' \<in> set (columns (monthly_data data m))"
    by (auto simp: monthly_data_def columns_select)
  then obtain filtered where ft: "filter_type SavingsOnly (monthly_data data m) = Inr filtered"
    by (simp add: filter_type_def)
  have v: "tab2_view f m SavingsOnly = Inr (Some (data, filtered))"
    using assms(1) d ft by (simp add: tab2_view_def)
  from view_body(1)[OF v] index_view[OF v] v show ?thesis
    by simp
qed

theorem savings_only_is_not_expense_witness:
  "\<not> df_empty (load_data ledger_two)
   \<and> ''Date'' \<in> set (columns (load_data ledger_two))
   \<and> ''Type'' \<in> set (columns (load_data ledger_two))
   \<and> (\<exists>data filtered.
         tab2_view ledger_two ''2024-02'' SavingsOnly = Inr (Some (data, filtered))
       \<and> index filtered = [1])"
proof -
  have h: "\<not> df_empty (load_data ledger_two)"
    "''Date'' \<in> set (columns (load_data ledger_two))"
    "''Type'' \<in> set (columns (load_data ledger_two))"
    by (simp_all add: load_ledger_two df_empty_def)
  have e: "map fst
             (filter (\<lambda>(i, r). month_of (at_col (columns (load_data ledger_two)) ''Date'' r)
                                = ''2024-02''
                          \<and> at_col (columns (load_data ledger_two)) ''Type'' r \<noteq> Str ''Expense'')
                     (body (load_data ledger_two))) = [1]"
    by (simp add: load_ledger_two frame_defs date_defs month_of_def text_of_def)
  from savings_only_is_not_expense[OF h, of "''2024-02''"] e
  have "\<exists>data filtered.
         tab2_view ledger_two ''2024-02'' SavingsOnly = Inr (Some (data, filtered))
       \<and> index filtered = [1]"
    by auto
  with h show ?thesis
    by blast
qed

subsection \<open>The rows offered for deletion\<close>

text \<open>
  C10. The rows offered for deletion are the rows of the view of the chosen month and
  type, each offered under its label, which is the position of the row in the loaded
  ledger: the options are the positions of the ledger's rows of that month and type. So
  when some of the offered rows are selected, the deletion succeeds, the file then holds
  the rows of the frame whose label was not selected, and every row it no longer holds
  was a row of the view.
\<close>

theorem delete_only_from_view:
  assumes "tab2_view f m sh = Inr (Some (data, filtered))"
    and "selected_rows \<noteq> []"
    and "set selected_rows \<subseteq> set (options filtered)"
  shows "options filtered =
           map fst
             (filter (\<lambda>(i, r). month_of (at_col (columns (load_data f)) ''Date'' r) = m
                     \<and> (sh = ExpensesOnly \<longrightarrow>
                          at_col (columns (load_data f)) ''Type'' r = Str ''Expense'')
                     \<and> (sh = SavingsOnly \<longrightarrow>
                          at_col (columns (load_data f)) ''Type'' r \<noteq> Str ''Expense''))
                (body (load_data f)))
       \<and> options filtered = map fst (body filtered)
       \<and> body filtered =
           filter (\<lambda>(i, r). at_col (columns data) ''Month'' r = Str m
                   \<and> (sh = ExpensesOnly \<longrightarrow> at_col (columns data) ''Type'' r = Str ''Expense'')
                   \<and> (sh = SavingsOnly \<longrightarrow> at_col (columns data) ''Type'' r \<noteq> Str ''Expense''))
                  (body data)
       \<and> index data = [0 ..< length (rows (load_data f))]
       \<and> tab2_delete f m sh selected_rows
           = Inr (Workbook [(SHEET_NAME,
               \<lparr>header = columns data,
                cells = map snd (filter (\<lambda>(i, r). i \<notin> set selected_rows) (body data))\<rparr>)])
       \<and> (\<forall>(i, r) \<in> set (body data).
             i \<in> set selected_rows \<longrightarrow> (i, r) \<in> set (body filtered))"
proof -
  note v = tab2_view_Some[OF assms(1)]
  note b = view_body(1)[OF assms(1)]
  have idx: "index data = index (load_data f)"
    using date_processing_Inr(1)[OF v(1)] .
  have sub: "set (body filtered) \<subseteq> set (body data)"
    by (subst b) auto
  have opts: "options filtered = map fst (body filtered)"
    by (simp add: options_def index_def)
  have sel: "set selected_rows \<subseteq> set (index data)"
    using assms(3) sub by (auto simp: opts index_def)
  note saved = tab2_delete_file[OF assms(1,2) sel]
  have dist: "distinct (map fst (body data))"
    using idx distinct_index_load[of f] by (simp add: index_def)
  have inside: "\<forall>(i, r) \<in> set (body data).
                  i \<in> set selected_rows \<longrightarrow> (i, r) \<in> set (body filtered)"
  proof (clarify)
    fix i r
    assume ir: "(i, r) \<in> set (body data)" and "i \<in> set selected_rows"
    with assms(3) obtain r' where r': "(i, r') \<in> set (body filtered)"
      by (auto simp: opts)
    with sub have "(i, r') \<in> set (body data)" by blast
    from same_label_same_row[OF dist ir this] r' show "(i, r) \<in> set (body filtered)"
      by simp
  qed
  have pos: "index data = [0 ..< length (rows (load_data f))]"
    by (simp add: idx index_load_data rows_def)
  have led: "options filtered =
           map fst
             (filter (\<lambda>(i, r). month_of (at_col (columns (load_data f)) ''Date'' r) = m
                     \<and> (sh = ExpensesOnly \<longrightarrow>
                          at_col (columns (load_data f)) ''Type'' r = Str ''Expense'')
                     \<and> (sh = SavingsOnly \<longrightarrow>
                          at_col (columns (load_data f)) ''Type'' r \<noteq> Str ''Expense''))
                (body (load_data f)))"
    unfolding options_def by (rule index_view[OF assms(1)])
  show ?thesis
    by (intro conjI led opts b pos saved inside)
qed

theorem delete_only_from_view_witness:
  "tab2_view ledger_two ''2024-01'' ExpensesOnly = Inr (Some (january_data, january_expenses))
   \<and> set [0] \<subseteq> set (options january_expenses)
   \<and> tab2_delete ledger_two ''2024-01'' ExpensesOnly [0]
       = Inr (Workbook [(''Expenses'',
           \<lparr>header = [''Date'', ''Category'', ''Amount (INR)'', ''Type'', ''Note'', ''Month''],
            cells = [[Stamp \<lparr>year = 2024, month = 2, day = 7, hour = 9, minute = 5\<rparr>,
                      Str ''Housing'', Num 80, Str ''Income/Savings'', NaN,
                      Str ''2024-02'']]\<rparr>)])"
proof -
  have h: "tab2_view ledger_two ''2024-01'' ExpensesOnly
           = Inr (Some (january_data, january_expenses))"
    by (simp add: load_ledger_two january_data_def january_expenses_def tab2_defs frame_defs
        date_defs Let_def)
  have o: "set [0] \<subseteq> set (options january_expenses)"
    by (simp add: january_expenses_def options_def index_def)
  have n: "[0::nat] \<noteq> []"
    by simp
  from delete_only_from_view[OF h n o]
  have "tab2_delete ledger_two ''2024-01'' ExpensesOnly [0]
        = Inr (Workbook [(SHEET_NAME,
            \<lparr>header = columns january_data,
             cells = map snd (filter (\<lambda>(i, r). i \<notin> set [0]) (body january_data))\<rparr>)])"
    by blast
  then have "tab2_delete ledger_two ''2024-01'' ExpensesOnly [0]
       = Inr (Workbook [(''Expenses'',
           \<lparr>header = [''Date'', ''Category'', ''Amount (INR)'', ''Type'', ''Note'', ''Month''],
            cells = [[Stamp \<lparr>year = 2024, month = 2, day = 7, hour = 9, minute = 5\<rparr>,
                      Str ''Housing'', Num 80, Str ''Income/Savings'', NaN,
                      Str ''2024-02'']]\<rparr>)])"
    by (simp add: january_data_def SHEET_NAME_def)
  with h o show ?thesis
    by blast
qed

subsection \<open>The summary\<close>

lemma those_map_Some:
  "\<forall>x\<in>set xs. f x \<noteq> None \<Longrightarrow> those (map f xs) = Some (map (\<lambda>x. the (f x)) xs)"
  by (induction xs) auto

lemma amount_of_value:
  "amount_of c \<noteq> None \<Longrightarrow> the (amount_of c) = (case c of Num q \<Rightarrow> q | _ \<Rightarrow> 0)"
  by (cases c) (simp_all add: amount_of_def)

lemma set_unique: "set (unique xs) = set xs"
  by (simp add: unique_def)

lemma distinct_unique: "distinct (unique xs)"
  by (simp add: unique_def)

lemma set_sort_values_desc: "set (sort_values_desc g) = set g"
  by (simp add: sort_values_desc_def)

lemma distinct_sort_values_desc: "distinct (sort_values_desc g) = distinct g"
  by (simp add: sort_values_desc_def)

lemma sorted_sort_values_desc: "sorted_wrt (\<lambda>a b. b \<le> a) (map snd (sort_values_desc g))"
proof -
  have "sorted (map snd (sort_key snd (rev g)))"
    by (rule sorted_sort_key)
  then have "sorted_wrt (\<lambda>a b. b \<le> a) (rev (map snd (sort_key snd (rev g))))"
    by (simp add: sorted_wrt_rev)
  then show ?thesis
    by (simp add: sort_values_desc_def rev_map)
qed

lemma sum_list_pos:
  fixes xs :: "rat list"
  shows "xs \<noteq> [] \<Longrightarrow> \<forall>x\<in>set xs. 0 < x \<Longrightarrow> 0 < sum_list xs"
  by (induction xs) (auto intro: add_pos_nonneg add_pos_pos simp: sum_list_nonneg less_imp_le)

lemma group_total_ok:
  assumes "\<forall>r\<in>set (rows df). amount_of (at_col (columns df) ''Amount (INR)'' r) \<noteq> None"
  shows "group_total df k = Some (total_of df k)"
proof -
  let ?rs = "filter (\<lambda>r. at_col (columns df) ''Category'' r = k) (rows df)"
  have ok: "\<forall>r\<in>set ?rs. amount_of (at_col (columns df) ''Amount (INR)'' r) \<noteq> None"
    using assms by simp
  have eq: "map (\<lambda>r. the (amount_of (at_col (columns df) ''Amount (INR)'' r))) ?rs
        = map (\<lambda>r. case at_col (columns df) ''Amount (INR)'' r of Num q \<Rightarrow> q | _ \<Rightarrow> 0) ?rs"
    by (rule map_cong[OF refl]) (use ok amount_of_value in blast)
  show ?thesis
    unfolding group_total_def total_of_def those_map_Some[OF ok] eq by simp
qed

lemma groupby_sum_ok:
  assumes "''Category'' \<in> set (columns df)" and "''Amount (INR)'' \<in> set (columns df)"
    and "\<forall>r\<in>set (rows df). amount_of (at_col (columns df) ''Amount (INR)'' r) \<noteq> None"
  shows "groupby_sum df
         = Inr (map (\<lambda>k. (k, total_of df k))
                  (sort_key text_of (unique (dropna (map (at_col (columns df) ''Category'') (rows df))))))"
proof -
  let ?keys = "sort_key text_of (unique (dropna (map (at_col (columns df) ''Category'') (rows df))))"
  have m: "map (group_total df) ?keys = map (\<lambda>k. Some (total_of df k)) ?keys"
    by (rule map_cong[OF refl]) (rule group_total_ok[OF assms(3)])
  have "those (map (\<lambda>k. Some (total_of df k)) ?keys) = Some (map (\<lambda>k. the (Some (total_of df k))) ?keys)"
    by (rule those_map_Some) simp
  then have t: "those (map (group_total df) ?keys) = Some (map (total_of df) ?keys)"
    unfolding m by simp
  have z: "zip ?keys (map (total_of df) ?keys) = map (\<lambda>k. (k, total_of df k)) ?keys"
    by (simp add: zip_map2 zip_same_conv_map)
  show ?thesis
    by (simp add: groupby_sum_def Let_def t z assms(1,2))
qed

text \<open>
  C7. For a selection that is not empty, has the columns of category and amount and holds
  only numbers or blanks as amounts, the summary is a table with one line for each
  category that occurs in the selection and no other line; the line of a category holds
  the sum of the amounts of its rows; the lines stand by falling total. A category without
  a row in the selection has no line. When every amount is positive, as the entries made
  through the form are, every total is positive.
\<close>

theorem totals_by_category:
  assumes "\<not> df_empty filtered"
    and "''Category'' \<in> set (columns filtered)" and "''Amount (INR)'' \<in> set (columns filtered)"
    and "\<forall>r\<in>set (rows filtered). amount_of (at_col (columns filtered) ''Amount (INR)'' r) \<noteq> None"
  shows "\<exists>g. grouped filtered = Inr (Some g)
           \<and> distinct (map fst g)
           \<and> set (map fst g)
               = {k \<in> set (map (at_col (columns filtered) ''Category'') (rows filtered)). k \<noteq> NaN}
           \<and> (\<forall>(k, t) \<in> set g. t = total_of filtered k)
           \<and> sorted_wrt (\<lambda>a b. b \<le> a) (map snd g)
           \<and> ((\<forall>r\<in>set (rows filtered). \<exists>q>0. at_col (columns filtered) ''Amount (INR)'' r = Num q)
                \<longrightarrow> (\<forall>(k, t) \<in> set g. 0 < t))"
proof -
  let ?cats = "map (at_col (columns filtered) ''Category'') (rows filtered)"
  let ?keys = "sort_key text_of (unique (dropna ?cats))"
  let ?g0 = "map (\<lambda>k. (k, total_of filtered k)) ?keys"
  let ?g = "sort_values_desc ?g0"
  have g: "grouped filtered = Inr (Some ?g)"
    using assms(1) by (simp add: grouped_def groupby_sum_ok[OF assms(2,3,4)])
  have keys: "set ?keys = {k \<in> set ?cats. k \<noteq> NaN}"
    by (auto simp: set_unique dropna_def)
  have dk: "distinct ?keys"
    by (simp add: distinct_unique)
  have sg: "set ?g = (\<lambda>k. (k, total_of filtered k)) ` set ?keys"
    by (simp add: set_sort_values_desc)
  have "inj_on fst (set ?g)"
    unfolding sg by (auto simp: inj_on_def)
  moreover have "distinct ?g"
    by (simp add: distinct_sort_values_desc distinct_map distinct_unique inj_on_def)
  ultimately have d: "distinct (map fst ?g)"
    by (simp add: distinct_map)
  have "set (map fst ?g) = set ?keys"
    unfolding set_map sg by (simp add: image_image)
  with keys have sf: "set (map fst ?g) = {k \<in> set ?cats. k \<noteq> NaN}"
    by simp
  have tot: "\<forall>(k, t) \<in> set ?g. t = total_of filtered k"
    unfolding sg by auto
  have pos: "(\<forall>r\<in>set (rows filtered). \<exists>q>0. at_col (columns filtered) ''Amount (INR)'' r = Num q)
                \<longrightarrow> (\<forall>(k, t) \<in> set ?g. 0 < t)"
  proof (intro impI)
    assume p: "\<forall>r\<in>set (rows filtered). \<exists>q>0. at_col (columns filtered) ''Amount (INR)'' r = Num q"
    have "0 < total_of filtered k" if "k \<in> set ?keys" for k
    proof -
      let ?rs = "filter (\<lambda>r. at_col (columns filtered) ''Category'' r = k) (rows filtered)"
      from that keys have "k \<in> set ?cats" by blast
      then have ne: "?rs \<noteq> []"
        by (auto simp: filter_empty_conv)
      have "\<forall>x\<in>set (map (\<lambda>r. case at_col (columns filtered) ''Amount (INR)'' r of Num q \<Rightarrow> q | _ \<Rightarrow> 0) ?rs). 0 < x"
        using p by fastforce
      with ne show ?thesis
        unfolding total_of_def by (intro sum_list_pos) simp_all
    qed
    then show "\<forall>(k, t) \<in> set ?g. 0 < t"
      unfolding sg by auto
  qed
  show ?thesis
    by (intro exI[of _ ?g] conjI g d sf tot pos sorted_sort_values_desc)
qed

theorem totals_by_category_witness:
  "\<not> df_empty march_expenses
   \<and> (\<exists>g. grouped march_expenses = Inr (Some g)
          \<and> distinct (map fst g)
          \<and> set (map fst g) = {Str ''Food'', Str ''Housing''}
          \<and> sorted_wrt (\<lambda>a b. b \<le> a) (map snd g))"
proof -
  have h: "\<not> df_empty march_expenses"
    "''Category'' \<in> set (columns march_expenses)"
    "''Amount (INR)'' \<in> set (columns march_expenses)"
    "\<forall>r\<in>set (rows march_expenses).
       amount_of (at_col (columns march_expenses) ''Amount (INR)'' r) \<noteq> None"
    by (simp_all add: march_expenses_def df_empty_def rows_def at_col_def cell_at_def
        amount_of_def)
  have s: "{k \<in> set (map (at_col (columns march_expenses) ''Category'') (rows march_expenses)).
             k \<noteq> NaN} = {Str ''Food'', Str ''Housing''}"
    by (auto simp: march_expenses_def rows_def at_col_def cell_at_def)
  from totals_by_category[OF h] obtain g where
    "grouped march_expenses = Inr (Some g)" "distinct (map fst g)"
    "set (map fst g)
     = {k \<in> set (map (at_col (columns march_expenses) ''Category'') (rows march_expenses)).
          k \<noteq> NaN}"
    "sorted_wrt (\<lambda>a b. b \<le> a) (map snd g)"
    by blast
  with h(1) show ?thesis
    unfolding s by blast
qed

text \<open>The table itself, for the expenses of March 2024.\<close>

lemma grouped_march_expenses:
  "grouped march_expenses = Inr (Some [(Str ''Housing'', 900), (Str ''Food'', 350)])"
  by (simp add: march_expenses_def grouped_def groupby_sum_def group_total_def amount_of_def
      sort_values_desc_def unique_def dropna_def text_of_def df_empty_def rows_def at_col_def
      cell_at_def Let_def)

lemma march_expenses_view:
  "map_sum id (map_option snd) (tab2_view ledger_five ''2024-03'' ExpensesOnly)
   = Inr (Some march_expenses)"
  by (simp add: load_ledger_five march_expenses_def tab2_defs frame_defs date_defs Let_def)

subsection \<open>What the deletion writes\<close>

text \<open>
  The two buttons of the first tab write the columns they have loaded; a ledger of the five
  columns keeps them.
\<close>

lemma add_entry_keeps_columns:
  assumes "columns (load_data f) = COLUMNS"
  shows "columns (load_data (fst (add_entry now category amount txn_type nt f))) = COLUMNS"
proof (cases "0 < amount")
  case True
  have "columns (new_entry now category amount txn_type nt) = COLUMNS"
    by (simp add: new_entry_def COLUMNS_def)
  then have "columns (concat_frames (load_data f) (new_entry now category amount txn_type nt))
             = COLUMNS"
    using assms by (simp add: concat_frames_def Let_def)
  with True show ?thesis
    by (simp add: add_entry_def Let_def load_save)
next
  case False
  with assms show ?thesis
    by (simp add: add_entry_rejected)
qed

lemma remove_last_keeps_columns:
  "columns (load_data (fst (remove_last f))) = columns (load_data f)"
  by (simp add: remove_last_def Let_def load_save)

text \<open>
  C1. The file that ``Delete Selected Rows'' writes does not have the five columns only,
  nor its dates as text: deleting the entry of January from \<open>ledger_two\<close> leaves a sheet
  with a sixth column \<open>Month\<close> whose remaining row has a date-time value in the place
  of the text \<^verbatim>\<open>2024-02-07 09:05\<close>.
\<close>

theorem delete_adds_month_column:
  "tab2_delete ledger_two ''2024-01'' ExpensesOnly [0]
   = Inr (Workbook [(''Expenses'',
       \<lparr>header = [''Date'', ''Category'', ''Amount (INR)'', ''Type'', ''Note'', ''Month''],
        cells = [[Stamp \<lparr>year = 2024, month = 2, day = 7, hour = 9, minute = 5\<rparr>,
                  Str ''Housing'', Num 80, Str ''Income/Savings'', NaN,
                  Str ''2024-02'']]\<rparr>)])"
  by (simp add: load_ledger_two tab2_defs frame_defs date_defs Let_def)

text \<open>
  C6. Deleting the rows 1 and 3 of the five of \<open>ledger_five\<close> leaves the rows that stood at
  0, 2 and 4, in this order, but not as they were: each has its date as a date-time value
  and a sixth cell, the month.
\<close>

theorem delete_rewrites_kept_rows:
  "tab2_delete ledger_five ''2024-03'' AllTypes [1, 3]
   = Inr (Workbook [(''Expenses'',
       \<lparr>header = [''Date'', ''Category'', ''Amount (INR)'', ''Type'', ''Note'', ''Month''],
        cells = [[Stamp \<lparr>year = 2024, month = 3, day = 1, hour = 8, minute = 0\<rparr>,
                  Str ''Food'', Num 100, Str ''Expense'', Str ''a'', Str ''2024-03''],
                 [Stamp \<lparr>year = 2024, month = 3, day = 3, hour = 10, minute = 30\<rparr>,
                  Str ''Food'', Num 200, Str ''Expense'', Str ''c'', Str ''2024-03''],
                 [Stamp \<lparr>year = 2024, month = 3, day = 5, hour = 12, minute = 0\<rparr>,
                  Str ''Food'', Num 50, Str ''Expense'', Str ''e'', Str ''2024-03'']]\<rparr>)])"
  by (simp add: load_ledger_five tab2_defs frame_defs date_defs Let_def)

subsection \<open>A date that cannot be read\<close>

text \<open>
  In every ledger, a row whose date cannot be read is listed under the month \<open>NaT\<close>:
  this name is among the months offered, and the row is in the view of that month.
\<close>

lemma unreadable_row_in_NaT_view:
  assumes "tab2_view f ''NaT'' AllTypes = Inr (Some (data, filtered))"
    and "(i, r) \<in> set (body (load_data f))"
    and "to_datetime (at_col (columns (load_data f)) ''Date'' r) = NaN"
  shows "''NaT'' \<in> set (month_options data)" and "i \<in> set (options filtered)"
proof -
  note v = tab2_view_Some[OF assms(1)]
  have m: "month_of (at_col (columns (load_data f)) ''Date'' r) = ''NaT''"
    using assms(3) by (rule month_of_unreadable)
  have "r \<in> set (rows (load_data f))"
    using assms(2) by (force simp: rows_def)
  with m show "''NaT'' \<in> set (month_options data)"
    unfolding set_month_options[OF v(1)] by force
  from assms(2) m show "i \<in> set (options filtered)"
    unfolding options_def index_view[OF assms(1)] by force
qed

text \<open>
  C4. A row whose date cannot be read is not left out of the months: in \<open>ledger_bad_date\<close>
  the months offered are \<open>NaT\<close> and \<open>2024-01\<close>, \<open>NaT\<close> first, and the view of \<open>NaT\<close>
  holds the row with the unreadable date. No error arises.
\<close>

theorem unreadable_date_listed_as_NaT:
  "\<exists>data filtered.
     tab2_view ledger_bad_date ''NaT'' AllTypes = Inr (Some (data, filtered))
   \<and> month_options data = [''NaT'', ''2024-01'']
   \<and> body filtered = [(1, [NaN, Str ''Housing'', Num 80, Str ''Expense'', NaN, Str ''NaT''])]"
proof -
  let ?data = "\<lparr>columns = [''Date'', ''Category'', ''Amount (INR)'', ''Type'', ''Note'', ''Month''],
                body = [(0, [Stamp \<lparr>year = 2024, month = 1, day = 5, hour = 10, minute = 30\<rparr>,
                             Str ''Food'', Num 250, Str ''Expense'', Str ''lunch'',
                             Str ''2024-01'']),
                        (1, [NaN, Str ''Housing'', Num 80, Str ''Expense'', NaN,
                             Str ''NaT''])]\<rparr>"
  let ?filtered = "\<lparr>columns = [''Date'', ''Category'', ''Amount (INR)'', ''Type'', ''Note'',
                                ''Month''],
                    body = [(1, [NaN, Str ''Housing'', Num 80, Str ''Expense'', NaN,
                                 Str ''NaT''])]\<rparr>"
  have "tab2_view ledger_bad_date ''NaT'' AllTypes = Inr (Some (?data, ?filtered))"
    by (simp add: load_ledger_bad_date tab2_defs frame_defs date_defs Let_def)
  moreover have "month_options ?data = [''NaT'', ''2024-01'']"
    by (simp add: month_options_def unique_def dropna_def text_of_def rows_def at_col_def
        cell_at_def less_char_def less_eq_char_def)
  ultimately show ?thesis
    by simp
qed


end
